theory Spec2Isabelle
  imports Complex_Main
begin

section \<open>Strings\<close>

text \<open>
  A JavaScript string is a sequence of UTF-16 code units. The development covers the
  strings whose code units are below 256: a \<^typ>\<open>char\<close> is one code unit and
  \<^const>\<open>length\<close> is the \<^verbatim>\<open>length\<close> property.
\<close>

definition NL :: char where
  "NL = CHR 0x0A"

definition CR :: char where
  "CR = CHR 0x0D"

text \<open>The class \<^verbatim>\<open>\s\<close> and the characters removed by \<^verbatim>\<open>trim()\<close>:
  tab, line feed, vertical tab, form feed, carriage return, space, no-break space.\<close>

definition isWhitespace :: "char \<Rightarrow> bool" where
  "isWhitespace c = (c \<in> set [CHR 0x09, CHR 0x0A, CHR 0x0B, CHR 0x0C, CHR 0x0D, CHR 0x20, CHR 0xA0])"

text \<open>The characters that \<^verbatim>\<open>.\<close> does not match.\<close>

definition isLineTerminator :: "char \<Rightarrow> bool" where
  "isLineTerminator c = (c = NL \<or> c = CR)"

definition isDigit :: "char \<Rightarrow> bool" where
  "isDigit c = (c \<in> set ''0123456789'')"

text \<open>\<^verbatim>\<open>toLowerCase()\<close> on one code unit below 256: the letters A to Z and the
  capital letters of the Latin-1 block (0xC0 to 0xDE without the multiplication sign).\<close>

definition upperChars :: "char list" where
  "upperChars = ''ABCDEFGHIJKLMNOPQRSTUVWXYZ'' @
     [CHR 0xC0, CHR 0xC1, CHR 0xC2, CHR 0xC3, CHR 0xC4, CHR 0xC5, CHR 0xC6, CHR 0xC7, CHR 0xC8, CHR 0xC9, CHR 0xCA, CHR 0xCB, CHR 0xCC, CHR 0xCD, CHR 0xCE, CHR 0xCF, CHR 0xD0, CHR 0xD1, CHR 0xD2, CHR 0xD3, CHR 0xD4, CHR 0xD5, CHR 0xD6, CHR 0xD8, CHR 0xD9, CHR 0xDA, CHR 0xDB, CHR 0xDC, CHR 0xDD, CHR 0xDE]"

definition lowerChars :: "char list" where
  "lowerChars = ''abcdefghijklmnopqrstuvwxyz'' @
     [CHR 0xE0, CHR 0xE1, CHR 0xE2, CHR 0xE3, CHR 0xE4, CHR 0xE5, CHR 0xE6, CHR 0xE7, CHR 0xE8, CHR 0xE9, CHR 0xEA, CHR 0xEB, CHR 0xEC, CHR 0xED, CHR 0xEE, CHR 0xEF, CHR 0xF0, CHR 0xF1, CHR 0xF2, CHR 0xF3, CHR 0xF4, CHR 0xF5, CHR 0xF6, CHR 0xF8, CHR 0xF9, CHR 0xFA, CHR 0xFB, CHR 0xFC, CHR 0xFD, CHR 0xFE]"

definition toLowerChar :: "char \<Rightarrow> char" where
  "toLowerChar c = (case map_of (zip upperChars lowerChars) c of Some l \<Rightarrow> l | None \<Rightarrow> c)"

definition toLowerCase :: "string \<Rightarrow> string" where
  "toLowerCase s = map toLowerChar s"

definition trim :: "string \<Rightarrow> string" where
  "trim s = rev (dropWhile isWhitespace (rev (dropWhile isWhitespace s)))"

text \<open>\<^verbatim>\<open>content.split("\n")\<close>: the empty string gives one empty line.\<close>

fun split_lines :: "string \<Rightarrow> string list" where
  "split_lines [] = [[]]"
| "split_lines (c # cs) =
     (if c = NL then [] # split_lines cs
      else (case split_lines cs of
              [] \<Rightarrow> [[c]]
            | l # ls \<Rightarrow> (c # l) # ls))"

section \<open>Section extraction\<close>

text \<open>
  \<^verbatim>\<open>line.match(/^(#{1,6})\s*(.*)$/)\<close>. The greedy \<^verbatim>\<open>#{1,6}\<close> takes up to six
  hashes, \<^verbatim>\<open>\s*\<close> the whole run of whitespace behind them, and \<^verbatim>\<open>(.*)$\<close> has to
  reach the end of the string, which it does unless a line terminator is left. No
  shorter choice of the first two groups removes a line terminator from the rest, so
  backtracking never finds another match. The result is the length of group 1 and
  group 2.
\<close>

definition headingMatch :: "string \<Rightarrow> (nat \<times> string) option" where
  "headingMatch line =
     (let n = length (takeWhile (\<lambda>c. c = CHR ''#'') line)
      in if n = 0 then None
         else (let level = min n 6;
                   title = dropWhile isWhitespace (drop level line)
               in if list_ex isLineTerminator title then None
                  else Some (level, title)))"

text \<open>The first test of the loop body: a level-2 heading whose trimmed title equals
  the wanted heading, case-insensitively.\<close>

definition opensSection :: "string \<Rightarrow> string \<Rightarrow> bool" where
  "opensSection headingText line =
     (case headingMatch line of
        None \<Rightarrow> False
      | Some (level, title) \<Rightarrow>
          level = 2 \<and> toLowerCase (trim title) = toLowerCase headingText)"

text \<open>The second test, reached by a heading that failed the first one: level at most 2.\<close>

definition closesSection :: "string \<Rightarrow> string \<Rightarrow> bool" where
  "closesSection headingText line =
     (case headingMatch line of
        None \<Rightarrow> False
      | Some (level, title) \<Rightarrow>
          \<not> (level = 2 \<and> toLowerCase (trim title) = toLowerCase headingText) \<and> level \<le> 2)"

text \<open>The loop of \<^verbatim>\<open>extractLinesUnderHeading\<close> in NutritionCalculator.ts, with the
  flag \<^verbatim>\<open>inSection\<close> as an argument; \<^verbatim>\<open>continue\<close> goes on with the rest,
  \<^verbatim>\<open>break\<close> ends the result.\<close>

fun nc_loop :: "string \<Rightarrow> bool \<Rightarrow> string list \<Rightarrow> string list" where
  "nc_loop headingText inSection [] = []"
| "nc_loop headingText inSection (line # lines) =
     (case headingMatch line of
        Some (level, title) \<Rightarrow>
          if level = 2 \<and> toLowerCase (trim title) = toLowerCase headingText
          then nc_loop headingText True lines
          else if inSection \<and> level \<le> 2 then []
          else if inSection then line # nc_loop headingText inSection lines
          else nc_loop headingText inSection lines
      | None \<Rightarrow>
          if inSection then line # nc_loop headingText inSection lines
          else nc_loop headingText inSection lines)"

definition NC_extractLinesUnderHeading :: "string \<Rightarrow> string \<Rightarrow> string list" where
  "NC_extractLinesUnderHeading content headingText =
     nc_loop headingText False (split_lines content)"

text \<open>The loop of \<^verbatim>\<open>extractLinesUnderHeading\<close> in FoodHighlightCore.ts, which also
  carries the offset of the current line.\<close>

fun fhc_loop :: "string \<Rightarrow> bool \<Rightarrow> nat \<Rightarrow> string list \<Rightarrow> (string \<times> nat) list" where
  "fhc_loop headingText inSection offset [] = []"
| "fhc_loop headingText inSection offset (line # lines) =
     (case headingMatch line of
        Some (level, title) \<Rightarrow>
          if level = 2 \<and> toLowerCase (trim title) = toLowerCase headingText
          then fhc_loop headingText True (offset + length line + 1) lines
          else if inSection \<and> level \<le> 2 then []
          else if inSection
               then (line, offset) # fhc_loop headingText inSection (offset + length line + 1) lines
               else fhc_loop headingText inSection (offset + length line + 1) lines
      | None \<Rightarrow>
          if inSection
          then (line, offset) # fhc_loop headingText inSection (offset + length line + 1) lines
          else fhc_loop headingText inSection (offset + length line + 1) lines)"

definition FHC_extractLinesUnderHeading :: "string \<Rightarrow> string \<Rightarrow> (string \<times> nat) list" where
  "FHC_extractLinesUnderHeading text headingText =
     fhc_loop headingText False 0 (split_lines text)"

section \<open>The regular expressions of the log grammar\<close>

text \<open>
  Each regular expression of the source is a function that matches at the start of its
  argument, and a scan that moves the start along the string. All patterns carry the
  flag \<^verbatim>\<open>i\<close>; their letters are ASCII, so a pattern letter matches itself and its
  capital.
\<close>

definition ciPrefix :: "string \<Rightarrow> string \<Rightarrow> bool" where
  "ciPrefix p s = (length p \<le> length s \<and> toLowerCase (take (length p) s) = p)"

text \<open>An alternation of literals: the first alternative that matches wins.\<close>

fun matchAlt :: "string list \<Rightarrow> string \<Rightarrow> string option" where
  "matchAlt [] s = None"
| "matchAlt (p # ps) s = (if ciPrefix p s then Some (take (length p) s) else matchAlt ps s)"

text \<open>\<^verbatim>\<open>(kg|lb|cups?|tbsp|tsp|ml|oz|g|l|pcs?)\<close>; the greedy \<^verbatim>\<open>s?\<close> tries the
  plural first.\<close>

definition unitAlts :: "string list" where
  "unitAlts = [''kg'', ''lb'', ''cups'', ''cup'', ''tbsp'', ''tsp'', ''ml'', ''oz'', ''g'', ''l'',
     ''pcs'', ''pc'']"

text \<open>\<^verbatim>\<open>(kcal|fat|satfat|prot|carbs|sugar|fiber|sodium)\<close>\<close>

definition tagAlts :: "string list" where
  "tagAlts = [''kcal'', ''fat'', ''satfat'', ''prot'', ''carbs'', ''sugar'', ''fiber'', ''sodium'']"

text \<open>\<^verbatim>\<open>\d+(?:\.\d+)?\<close>: all digits, then a fraction when a dot and a digit follow.
  What follows the number in every pattern starts with a letter or is whitespace, so a
  shorter number never leads to a match.\<close>

definition matchNumber :: "string \<Rightarrow> string option" where
  "matchNumber s =
     (let ds = takeWhile isDigit s
      in if ds = [] then None
         else (case dropWhile isDigit s of
                 [] \<Rightarrow> Some ds
               | c # r \<Rightarrow>
                   if c = CHR ''.'' \<and> takeWhile isDigit r \<noteq> []
                   then Some (ds @ c # takeWhile isDigit r)
                   else Some ds))"

text \<open>The first match of a pattern at or after a position (\<^verbatim>\<open>exec\<close> without the
  flag \<^verbatim>\<open>g\<close>): the index and what the pattern returns.\<close>

fun scanFirst :: "(string \<Rightarrow> 'a option) \<Rightarrow> nat \<Rightarrow> string \<Rightarrow> (nat \<times> 'a) option" where
  "scanFirst m i [] = map_option (Pair i) (m [])"
| "scanFirst m i (c # cs) =
     (case m (c # cs) of
        Some a \<Rightarrow> Some (i, a)
      | None \<Rightarrow> scanFirst m (Suc i) cs)"

text \<open>All matches of a pattern (\<^verbatim>\<open>exec\<close> in a loop with the flag \<^verbatim>\<open>g\<close>, and
  \<^verbatim>\<open>matchAll\<close>): after a match of length \<open>n\<close> the scan goes on \<open>n\<close> characters later.
  The argument \<open>k\<close> counts the characters of the last match still to be passed. No
  pattern here matches the empty string.\<close>

fun scanAll :: "(string \<Rightarrow> 'a option) \<Rightarrow> ('a \<Rightarrow> nat) \<Rightarrow> nat \<Rightarrow> nat \<Rightarrow> string \<Rightarrow> (nat \<times> 'a) list" where
  "scanAll m len i k [] = []"
| "scanAll m len i (Suc k) (c # cs) = scanAll m len (Suc i) k cs"
| "scanAll m len i 0 (c # cs) =
     (case m (c # cs) of
        Some a \<Rightarrow> (i, a) # scanAll m len (Suc i) (len a - 1) cs
      | None \<Rightarrow> scanAll m len (Suc i) 0 cs)"

text \<open>
  \<^verbatim>\<open>/\[\[([^\]]+)\]\]\s+(\d+(?:\.\d+)?)(kg|lb|cups?|tbsp|tsp|ml|oz|g|l|pcs?)/i\<close>
  at the start of a string: the whole match and the groups 1, 2 and 3. Group 1 runs to
  the first closing bracket, the whitespace to the first character that is none.
\<close>

record linked_match =
  lm_all :: string
  lm_name :: string
  lm_amount :: string
  lm_unit :: string

definition matchLinkedAt :: "string \<Rightarrow> linked_match option" where
  "matchLinkedAt s =
     (if take 2 s \<noteq> ''[['' then None
      else (let r = drop 2 s;
                name = takeWhile (\<lambda>c. c \<noteq> CHR '']'') r;
                r1 = dropWhile (\<lambda>c. c \<noteq> CHR '']'') r
            in if name = [] \<or> take 2 r1 \<noteq> '']]'' then None
               else (let r2 = drop 2 r1;
                         ws = takeWhile isWhitespace r2;
                         r3 = dropWhile isWhitespace r2
                     in if ws = [] then None
                        else (case matchNumber r3 of
                                None \<Rightarrow> None
                              | Some num \<Rightarrow>
                                  (case matchAlt unitAlts (drop (length num) r3) of
                                     None \<Rightarrow> None
                                   | Some u \<Rightarrow>
                                       Some \<lparr>lm_all = ''[['' @ name @ '']]'' @ ws @ num @ u,
                                             lm_name = name, lm_amount = num, lm_unit = u\<rparr>)))))"

text \<open>
  \<^verbatim>\<open>/(-?\d+(?:\.\d+)?)\s*(kcal|fat|satfat|prot|carbs|sugar|fiber|sodium)/i\<close>
  at the start of a string: the whole match and the groups 1 and 2.
\<close>

record nutrient_match =
  nm_all :: string
  nm_value :: string
  nm_tag :: string

definition matchSign :: "string \<Rightarrow> string" where
  "matchSign s = (case s of [] \<Rightarrow> [] | c # cs \<Rightarrow> if c = CHR ''-'' then [c] else [])"

definition matchNutrientAt :: "string \<Rightarrow> nutrient_match option" where
  "matchNutrientAt s =
     (let sign = matchSign s;
          r0 = drop (length sign) s
      in case matchNumber r0 of
           None \<Rightarrow> None
         | Some num \<Rightarrow>
             (let r1 = drop (length num) r0;
                  ws = takeWhile isWhitespace r1
              in case matchAlt tagAlts (dropWhile isWhitespace r1) of
                   None \<Rightarrow> None
                 | Some tag \<Rightarrow>
                     Some \<lparr>nm_all = sign @ num @ ws @ tag, nm_value = sign @ num, nm_tag = tag\<rparr>))"

text \<open>
  The inline pattern of \<^verbatim>\<open>parseInlineNutrientEntriesFromLines\<close>,
  \<^verbatim>\<open>/(?!\[\[)([^\s][^\n]*?)\s+(TOK(?:\s+TOK)*)/i\<close> with
  \<^verbatim>\<open>TOK = -?\d+(?:\.\d+)?(?:kcal|fat|satfat|prot|carbs|sugar|fiber|sodium)\<close>.
\<close>

definition matchTok :: "string \<Rightarrow> string option" where
  "matchTok s =
     (let sign = matchSign s;
          r0 = drop (length sign) s
      in case matchNumber r0 of
           None \<Rightarrow> None
         | Some num \<Rightarrow>
             (case matchAlt tagAlts (drop (length num) r0) of
                None \<Rightarrow> None
              | Some tag \<Rightarrow> Some (sign @ num @ tag)))"

text \<open>\<^verbatim>\<open>(?:\s+TOK)*\<close>, greedy: what it matches at the start of a string.\<close>

function moreTokens :: "string \<Rightarrow> string" where
  "moreTokens r =
     (let ws = takeWhile isWhitespace r;
          r' = dropWhile isWhitespace r
      in if ws = [] then []
         else (case matchTok r' of
                 None \<Rightarrow> []
               | Some tok \<Rightarrow> ws @ tok @ moreTokens (drop (length tok) r')))"
  by pat_completeness auto
termination
proof (relation "measure length")
  show "wf (measure length)" by simp
next
  fix r :: string and ws r' tok :: string
  assume ws: "ws = takeWhile isWhitespace r" and r': "r' = dropWhile isWhitespace r"
    and ne: "ws \<noteq> []"
  have "length ws + length r' = length r"
    unfolding ws r' by (metis length_append takeWhile_dropWhile_id)
  with ne have "length r' < length r" by (cases ws) auto
  then show "(drop (length tok) r', r) \<in> measure length" by simp
qed

declare moreTokens.simps [simp del]

text \<open>\<^verbatim>\<open>\s+(TOK(?:\s+TOK)*)\<close> at the start of a string: group 2.\<close>

definition matchTail :: "string \<Rightarrow> string option" where
  "matchTail t =
     (if takeWhile isWhitespace t = [] then None
      else (let r = dropWhile isWhitespace t
            in case matchTok r of
                 None \<Rightarrow> None
               | Some tok \<Rightarrow> Some (tok @ moreTokens (drop (length tok) r))))"

text \<open>The lazy \<^verbatim>\<open>[^\n]*?\<close>: the tail is tried first, and one more character (no line
  feed) is taken only when it fails. The result is group 1 and group 2.\<close>

fun lazyLead :: "string \<Rightarrow> string \<Rightarrow> (string \<times> string) option" where
  "lazyLead lead [] = map_option (Pair lead) (matchTail [])"
| "lazyLead lead (c # cs) =
     (case matchTail (c # cs) of
        Some g2 \<Rightarrow> Some (lead, g2)
      | None \<Rightarrow> if c = NL then None else lazyLead (lead @ [c]) cs)"

definition matchInlineAt :: "string \<Rightarrow> (string \<times> string) option" where
  "matchInlineAt s =
     (case s of
        [] \<Rightarrow> None
      | c # cs \<Rightarrow>
          if take 2 s = ''[['' then None
          else if isWhitespace c then None
          else lazyLead [c] cs)"

section \<open>Numbers\<close>

text \<open>
  The amounts and nutrient values of the entries and the totals are exact rationals:
  every literal the grammar accepts is a decimal fraction, and the sums and products of
  the totals are taken without rounding error. The goal progress, which divides and
  rounds to whole percents, computes with the doubles of the next section.
\<close>

definition digitValue :: "char \<Rightarrow> nat" where
  "digitValue c = length (takeWhile (\<lambda>d. d \<noteq> c) ''0123456789'')"

definition natOfDigits :: "string \<Rightarrow> nat" where
  "natOfDigits ds = foldl (\<lambda>a c. 10 * a + digitValue c) 0 ds"

text \<open>\<^verbatim>\<open>parseFloat\<close> on a capture of the shape \<^verbatim>\<open>-?\d+(\.\d+)?\<close>, the only
  strings it is applied to.\<close>

definition parseFloat :: "string \<Rightarrow> rat" where
  "parseFloat s =
     (let sign = matchSign s;
          body = drop (length sign) s;
          ip = takeWhile isDigit body;
          fp = (case dropWhile isDigit body of
                  [] \<Rightarrow> []
                | c # r \<Rightarrow> if c = CHR ''.'' then takeWhile isDigit r else []);
          v = of_nat (natOfDigits ip) + of_nat (natOfDigits fp) / 10 ^ length fp
      in if sign = [] then v else - v)"

text \<open>\<^verbatim>\<open>Math.round\<close>: the nearest integer, a half rounded up.\<close>

definition js_round :: "rat \<Rightarrow> int" where
  "js_round x = \<lfloor>x + 1 / 2\<rfloor>"

section \<open>Double-precision numbers\<close>

text \<open>
  A JavaScript number is an IEEE 754 binary64 value: a finite double, one of the two
  infinities, or \<^verbatim>\<open>NaN\<close>. \<open>Finite\<close> carries the rational value of a finite
  double. The two zeros are one value: the functions that compute with this type never
  print a zero and divide only by a number greater than 0.
\<close>

datatype number = Finite rat | PosInfinity | NegInfinity | NaN

text \<open>The number of binary digits of a positive integer.\<close>

function bitLength :: "int \<Rightarrow> nat" where
  "bitLength n = (if n \<le> 0 then 0 else Suc (bitLength (n div 2)))"
  by pat_completeness auto
termination
  by (relation "measure nat") auto

declare bitLength.simps [simp del]

definition pow2 :: "int \<Rightarrow> rat" where
  "pow2 k = (if 0 \<le> k then 2 ^ nat k else 1 / 2 ^ nat (- k))"

text \<open>The binary exponent of a positive rational \<open>x\<close>: the \<open>e\<close> with
  \<open>2 ^ e \<le> x < 2 ^ (e + 1)\<close>.\<close>

definition exponentOf :: "rat \<Rightarrow> int" where
  "exponentOf x =
     (let (p, q) = quotient_of x;
          d = int (bitLength p) - int (bitLength q)
      in if pow2 d \<le> x then d else d - 1)"

definition roundHalfEven :: "rat \<Rightarrow> int" where
  "roundHalfEven y =
     (let f = \<lfloor>y\<rfloor>; r = y - of_int f
      in if r < 1 / 2 then f else if 1 / 2 < r then f + 1 else if even f then f else f + 1)"

text \<open>
  The double nearest to a rational, ties to even: 53 significant bits, the exponent
  not below -1022 (so small results are subnormal or 0), and a result of \<open>2 ^ 1024\<close> or
  more is an infinity. Every arithmetic operation on doubles is the exact operation
  followed by this rounding.
\<close>

definition toDouble :: "rat \<Rightarrow> number" where
  "toDouble x =
     (if x = 0 then Finite 0
      else (let a = \<bar>x\<bar>;
                e = max (exponentOf a) (- 1022);
                q = pow2 (e - 52);
                y = of_int (roundHalfEven (a / q)) * q
            in if pow2 1024 \<le> y then (if 0 < x then PosInfinity else NegInfinity)
               else Finite (if 0 < x then y else - y)))"

text \<open>The operators \<^verbatim>\<open>-\<close>, \<^verbatim>\<open>/\<close>, \<^verbatim>\<open>*\<close> and \<^verbatim>\<open>>\<close> on numbers.\<close>

fun js_sub :: "number \<Rightarrow> number \<Rightarrow> number" where
  "js_sub (Finite x) (Finite y) = toDouble (x - y)"
| "js_sub (Finite x) PosInfinity = NegInfinity"
| "js_sub (Finite x) NegInfinity = PosInfinity"
| "js_sub PosInfinity (Finite y) = PosInfinity"
| "js_sub PosInfinity NegInfinity = PosInfinity"
| "js_sub NegInfinity (Finite y) = NegInfinity"
| "js_sub NegInfinity PosInfinity = NegInfinity"
| "js_sub a b = NaN"

fun js_div :: "number \<Rightarrow> number \<Rightarrow> number" where
  "js_div (Finite x) (Finite y) =
     (if y = 0 then (if x = 0 then NaN else if 0 < x then PosInfinity else NegInfinity)
      else toDouble (x / y))"
| "js_div (Finite x) PosInfinity = Finite 0"
| "js_div (Finite x) NegInfinity = Finite 0"
| "js_div PosInfinity (Finite y) = (if 0 \<le> y then PosInfinity else NegInfinity)"
| "js_div NegInfinity (Finite y) = (if 0 \<le> y then NegInfinity else PosInfinity)"
| "js_div a b = NaN"

fun js_mul :: "number \<Rightarrow> number \<Rightarrow> number" where
  "js_mul (Finite x) (Finite y) = toDouble (x * y)"
| "js_mul (Finite x) PosInfinity =
     (if x = 0 then NaN else if 0 < x then PosInfinity else NegInfinity)"
| "js_mul (Finite x) NegInfinity =
     (if x = 0 then NaN else if 0 < x then NegInfinity else PosInfinity)"
| "js_mul PosInfinity (Finite y) =
     (if y = 0 then NaN else if 0 < y then PosInfinity else NegInfinity)"
| "js_mul NegInfinity (Finite y) =
     (if y = 0 then NaN else if 0 < y then NegInfinity else PosInfinity)"
| "js_mul PosInfinity PosInfinity = PosInfinity"
| "js_mul PosInfinity NegInfinity = NegInfinity"
| "js_mul NegInfinity PosInfinity = NegInfinity"
| "js_mul NegInfinity NegInfinity = PosInfinity"
| "js_mul a b = NaN"

fun js_gt :: "number \<Rightarrow> number \<Rightarrow> bool" where
  "js_gt (Finite x) (Finite y) = (y < x)"
| "js_gt (Finite x) NegInfinity = True"
| "js_gt PosInfinity (Finite y) = True"
| "js_gt PosInfinity NegInfinity = True"
| "js_gt a b = False"

text \<open>\<^verbatim>\<open>Math.round\<close> and \<^verbatim>\<open>Math.max\<close> on numbers. The rounded value of a finite double is
  a double, so no second rounding follows.\<close>

fun Math_round :: "number \<Rightarrow> number" where
  "Math_round (Finite x) = Finite (of_int (js_round x))"
| "Math_round a = a"

fun Math_max :: "number \<Rightarrow> number \<Rightarrow> number" where
  "Math_max NaN b = NaN"
| "Math_max a NaN = NaN"
| "Math_max a b = (if js_gt b a then b else a)"

section \<open>Entries of the food log\<close>

record FoodEntry =
  filename :: string
  amount :: rat
  unit :: string

text \<open>The keys of \<^verbatim>\<open>NutrientData\<close>. An object with optional numeric fields is a map
  from keys to numbers; a field that is absent or \<^verbatim>\<open>undefined\<close> is \<^const>\<open>None\<close>.\<close>

datatype nutrient_key =
  Calories | Fats | Saturated_fats | Protein | Carbs | Fiber | Sugar | Sodium | Serving_size

type_synonym NutrientData = "nutrient_key \<rightharpoonup> rat"

type_synonym InlineNutrientEntry = "nutrient_key \<rightharpoonup> rat"

text \<open>The goals come from outside the calculator and can be any number.\<close>

type_synonym NutrientGoals = "nutrient_key \<rightharpoonup> number"

definition allKeys :: "nutrient_key list" where
  "allKeys = [Calories, Fats, Saturated_fats, Protein, Carbs, Fiber, Sugar, Sodium, Serving_size]"

definition hasKeys :: "NutrientData \<Rightarrow> bool" where
  "hasKeys d = list_ex (\<lambda>k. d k \<noteq> None) allKeys"

definition nutrientKeyMap :: "string \<Rightarrow> nutrient_key option" where
  "nutrientKeyMap = map_of
     [(''kcal'', Calories), (''fat'', Fats), (''satfat'', Saturated_fats), (''prot'', Protein),
      (''carbs'', Carbs), (''sugar'', Sugar), (''fiber'', Fiber), (''sodium'', Sodium)]"

definition orZero :: "rat option \<Rightarrow> rat" where
  "orZero v = (case v of None \<Rightarrow> 0 | Some x \<Rightarrow> x)"

definition parseFoodEntriesFromLines :: "string list \<Rightarrow> FoodEntry list" where
  "parseFoodEntriesFromLines lines =
     concat (map (\<lambda>line.
        case scanFirst matchLinkedAt 0 line of
          None \<Rightarrow> []
        | Some (i, m) \<Rightarrow>
            [\<lparr>filename = lm_name m, amount = parseFloat (lm_amount m),
              unit = toLowerCase (lm_unit m)\<rparr>]) lines)"

definition parseNutrientString :: "string \<Rightarrow> InlineNutrientEntry" where
  "parseNutrientString nutrientString =
     fold (\<lambda>(i, m) nutrientData.
        case nutrientKeyMap (toLowerCase (nm_tag m)) of
          None \<Rightarrow> nutrientData
        | Some key \<Rightarrow> nutrientData(key \<mapsto> orZero (nutrientData key) + parseFloat (nm_value m)))
       (scanAll matchNutrientAt (\<lambda>m. length (nm_all m)) 0 0 nutrientString) Map.empty"

definition parseInlineNutrientEntriesFromLines :: "string list \<Rightarrow> InlineNutrientEntry list" where
  "parseInlineNutrientEntriesFromLines lines =
     concat (map (\<lambda>line.
        case scanFirst matchInlineAt 0 line of
          None \<Rightarrow> []
        | Some (i, lead, nutrientString) \<Rightarrow>
            (let nutrientData = parseNutrientString nutrientString
             in if hasKeys nutrientData then [nutrientData] else [])) lines)"

section \<open>Totals\<close>

text \<open>\<^verbatim>\<open>addNutrients\<close> updates the target for every key of the source that has a value;
  the model returns the updated target.\<close>

definition addNutrients :: "NutrientData \<Rightarrow> NutrientData \<Rightarrow> rat \<Rightarrow> NutrientData" where
  "addNutrients target source multiplier =
     fold (\<lambda>key t.
        case source key of
          None \<Rightarrow> t
        | Some v \<Rightarrow> t(key \<mapsto> orZero (t key) + v * multiplier)) allKeys target"

definition calculateInlineTotals :: "InlineNutrientEntry list \<Rightarrow> NutrientData" where
  "calculateInlineTotals entries = fold (\<lambda>entry totals. addNutrients totals entry 1) entries Map.empty"

definition filterValidWorkoutEntries :: "InlineNutrientEntry list \<Rightarrow> InlineNutrientEntry list" where
  "filterValidWorkoutEntries entries =
     filter (\<lambda>entry.
        list_ex (\<lambda>k. case entry k of None \<Rightarrow> False | Some v \<Rightarrow> v > 0) allKeys \<and>
        (case entry Calories of None \<Rightarrow> True | Some c \<Rightarrow> c \<ge> 0)) entries"

definition combineNutrients :: "NutrientData \<Rightarrow> NutrientData \<Rightarrow> NutrientData" where
  "combineNutrients nutrients1 nutrients2 = addNutrients nutrients1 nutrients2 1"

definition clampNutrientsToZero :: "NutrientData \<Rightarrow> NutrientData" where
  "clampNutrientsToZero nutrients =
     fold (\<lambda>key clamped.
        case nutrients key of
          None \<Rightarrow> clamped
        | Some v \<Rightarrow> clamped(key \<mapsto> max 0 v)) allKeys Map.empty"

record NutrientGoalProgress =
  remaining :: number
  percentConsumed :: number
  percentRemaining :: number

definition nutrientKeys :: "nutrient_key list" where
  "nutrientKeys = [Calories, Fats, Saturated_fats, Protein, Carbs, Fiber, Sugar, Sodium]"

text \<open>\<^verbatim>\<open>calculateGoalProgress\<close>. The difference, the quotient and the product are the
  double-precision ones. A consumed total is the value of the double the code holds.\<close>

definition calculateGoalProgress ::
  "NutrientData \<Rightarrow> NutrientGoals \<Rightarrow> (nutrient_key \<rightharpoonup> NutrientGoalProgress)" where
  "calculateGoalProgress consumed goals =
     fold (\<lambda>key progress.
        let consumedValue = Finite (orZero (consumed key))
        in case goals key of
             None \<Rightarrow> progress
           | Some goal \<Rightarrow>
               (let rem = js_sub goal consumedValue
                in progress(key \<mapsto>
                     \<lparr>remaining = rem,
                      percentConsumed =
                        (if js_gt goal (Finite 0)
                         then Math_round (js_mul (js_div consumedValue goal) (Finite 100))
                         else Finite 0),
                      percentRemaining =
                        (if js_gt goal (Finite 0)
                         then Math_max (Finite 0)
                                (Math_round (js_mul (js_div rem goal) (Finite 100)))
                         else Finite 0)\<rparr>)))
       nutrientKeys Map.empty"

text \<open>
  The lookup \<^verbatim>\<open>getNutritionData\<close> is a collaborator: it returns nutrition facts or
  \<^verbatim>\<open>null\<close>, or it throws (\<^const>\<open>Inl\<close> with the thrown value). The calls of the
  error callback are collected in a log, in order. \<^verbatim>\<open>getUnitMultiplier\<close> is imported
  from a module outside the examined sources and is a parameter.
\<close>

type_synonym 'e lookup = "string \<Rightarrow> 'e + NutrientData option"

type_synonym unit_multiplier = "rat \<Rightarrow> string \<Rightarrow> rat option \<Rightarrow> rat"

definition totalsStep ::
  "unit_multiplier \<Rightarrow> 'e lookup \<Rightarrow> FoodEntry \<Rightarrow> NutrientData \<times> (string \<times> 'e) list
     \<Rightarrow> NutrientData \<times> (string \<times> 'e) list" where
  "totalsStep getUnitMultiplier getNutritionData entry st =
     (case st of (totals, calls) \<Rightarrow>
        (case getNutritionData (filename entry) of
           Inl err \<Rightarrow> (totals, calls @ [(filename entry, err)])
         | Inr None \<Rightarrow> (totals, calls)
         | Inr (Some nutrients) \<Rightarrow>
             (addNutrients totals nutrients
                (getUnitMultiplier (amount entry) (unit entry) (nutrients Serving_size)),
              calls)))"

definition calculateTotals ::
  "unit_multiplier \<Rightarrow> FoodEntry list \<Rightarrow> 'e lookup \<Rightarrow> NutrientData \<times> (string \<times> 'e) list" where
  "calculateTotals getUnitMultiplier entries getNutritionData =
     fold (totalsStep getUnitMultiplier getNutritionData) entries (Map.empty, [])"

record 'e NutritionCalculationParams =
  content :: string
  getNutritionData :: "'e lookup"
  goals :: "NutrientGoals option"

record NutritionCalculationResult =
  linkedTotals :: NutrientData
  inlineTotals :: NutrientData
  workoutTotals :: NutrientData
  combinedTotals :: NutrientData
  clampedTotals :: NutrientData
  goalProgress :: "(nutrient_key \<rightharpoonup> NutrientGoalProgress) option"

text \<open>The workout adjustment of \<^verbatim>\<open>calculateNutritionTotals\<close>: the new workout totals
  and inline totals.\<close>

definition workoutAdjust ::
  "InlineNutrientEntry list \<Rightarrow> NutrientData \<Rightarrow> NutrientData \<times> NutrientData" where
  "workoutAdjust workoutEntries inlTotals =
     (if workoutEntries \<noteq> []
      then (let validWorkoutEntries = filterValidWorkoutEntries workoutEntries
            in if validWorkoutEntries \<noteq> []
               then (let wt = calculateInlineTotals validWorkoutEntries
                     in (wt, if hasKeys wt then addNutrients inlTotals wt (- 1) else inlTotals))
               else (Map.empty, inlTotals))
      else (Map.empty, inlTotals))"

text \<open>\<^verbatim>\<open>calculateNutritionTotals\<close>: the result (\<^const>\<open>None\<close> for \<^verbatim>\<open>null\<close>) and the log
  of the error callback. The tag parameters are escaped into constants that nothing
  reads, and are left out. The list \<^verbatim>\<open>workoutEntries\<close> is the empty array literal of
  the source.\<close>

definition calculateNutritionTotals ::
  "unit_multiplier \<Rightarrow> 'e NutritionCalculationParams
     \<Rightarrow> NutritionCalculationResult option \<times> (string \<times> 'e) list" where
  "calculateNutritionTotals getUnitMultiplier params =
     (let foodLogLines = NC_extractLinesUnderHeading (content params) ''Food Log'';
          foodEntries = parseFoodEntriesFromLines foodLogLines;
          inlineEntries = parseInlineNutrientEntriesFromLines foodLogLines;
          workoutEntries = ([] :: InlineNutrientEntry list)
      in if foodEntries = [] \<and> inlineEntries = [] \<and> workoutEntries = [] then (None, [])
         else (case calculateTotals getUnitMultiplier foodEntries (getNutritionData params) of
                 (linked, calls) \<Rightarrow>
                   (case workoutAdjust workoutEntries (calculateInlineTotals inlineEntries) of
                      (workout, inline) \<Rightarrow>
                        (let combined = combineNutrients linked inline;
                             clamped = clampNutrientsToZero combined
                         in (Some \<lparr>linkedTotals = linked, inlineTotals = inline,
                                   workoutTotals = workout, combinedTotals = combined,
                                   clampedTotals = clamped,
                                   goalProgress =
                                     map_option (calculateGoalProgress clamped) (goals params)\<rparr>,
                             calls)))))"

section \<open>Highlight ranges and calorie annotations\<close>

datatype highlight_type = Nutrition | Amount

text \<open>The fields \<^verbatim>\<open>start\<close>, \<^verbatim>\<open>end\<close> and \<^verbatim>\<open>type\<close> of a \<^verbatim>\<open>HighlightRange\<close>.\<close>

record HighlightRange =
  hr_start :: int
  hr_end :: int
  hr_type :: highlight_type

record CalorieAnnotation =
  position :: int
  annotation_text :: string

text \<open>\<^verbatim>\<open>s.indexOf(pat)\<close>: the first index at which \<open>pat\<close> occurs, or \<open>-1\<close>.\<close>

fun indexOfFrom :: "nat \<Rightarrow> string \<Rightarrow> string \<Rightarrow> int" where
  "indexOfFrom i pat [] = (if pat = [] then int i else - 1)"
| "indexOfFrom i pat (c # cs) =
     (if take (length pat) (c # cs) = pat then int i else indexOfFrom (Suc i) pat cs)"

definition indexOf :: "string \<Rightarrow> string \<Rightarrow> int" where
  "indexOf s pat = indexOfFrom 0 pat s"

definition extractFoodHighlightRanges :: "string \<Rightarrow> int \<Rightarrow> HighlightRange list" where
  "extractFoodHighlightRanges text lineStart =
     map (\<lambda>(i, linkedMatch).
            let amountStart = lineStart + int i + indexOf (lm_all linkedMatch) (lm_amount linkedMatch);
                amountEnd = amountStart + int (length (lm_amount linkedMatch))
                              + int (length (lm_unit linkedMatch)) + 1
            in \<lparr>hr_start = amountStart, hr_end = amountEnd, hr_type = Amount\<rparr>)
         (scanAll matchLinkedAt (\<lambda>m. length (lm_all m)) 0 0 text)
     @ map (\<lambda>(i, inlineMatch).
            let valueStart = lineStart + int i;
                valueEnd = valueStart + int (length (nm_all inlineMatch))
            in \<lparr>hr_start = valueStart, hr_end = valueEnd, hr_type = Nutrition\<rparr>)
         (scanAll matchNutrientAt (\<lambda>m. length (nm_all m)) 0 0 text)"

definition extractMultilineHighlightRanges :: "string \<Rightarrow> int \<Rightarrow> HighlightRange list" where
  "extractMultilineHighlightRanges text startOffset =
     concat (map (\<lambda>(line, offset). extractFoodHighlightRanges line (startOffset + int offset))
                 (FHC_extractLinesUnderHeading text ''Food Log''))"

text \<open>The two methods of a \<^verbatim>\<open>CalorieProvider\<close>; each returns a number or
  \<^verbatim>\<open>null\<close>, or throws.\<close>

record 'e CalorieProvider =
  getCaloriesForFood :: "string \<Rightarrow> 'e + rat option"
  getServingSize :: "string \<Rightarrow> 'e + rat option"

text \<open>\<^verbatim>\<open>rawFileName.split("|")[0].split("#")[0].split("/").pop()?.trim()\<close>\<close>

definition normalizeFileName :: "string \<Rightarrow> string" where
  "normalizeFileName rawFileName =
     (let bare = takeWhile (\<lambda>c. c \<noteq> CHR ''#'') (takeWhile (\<lambda>c. c \<noteq> CHR ''|'') rawFileName)
      in trim (rev (takeWhile (\<lambda>c. c \<noteq> CHR ''/'') (rev bare))))"

text \<open>The decimal digits of a natural number, for the template string
  \<^verbatim>\<open>`${formattedCalories}kcal`\<close>.\<close>

function showNat :: "nat \<Rightarrow> string" where
  "showNat n =
     (if n < 10 then [''0123456789'' ! n]
      else showNat (n div 10) @ [''0123456789'' ! (n mod 10)])"
  by pat_completeness auto
termination
  by (relation "measure id") auto

declare showNat.simps [simp del]

text \<open>A loop whose body can throw: the first error ends it.\<close>

fun collectResults :: "('a \<Rightarrow> 'e + 'b list) \<Rightarrow> 'a list \<Rightarrow> 'e + 'b list" where
  "collectResults f [] = Inr []"
| "collectResults f (x # xs) =
     (case f x of
        Inl e \<Rightarrow> Inl e
      | Inr ys \<Rightarrow>
          (case collectResults f xs of
             Inl e \<Rightarrow> Inl e
           | Inr zs \<Rightarrow> Inr (ys @ zs)))"

text \<open>The body of the inner loop of \<^verbatim>\<open>extractInlineCalorieAnnotations\<close> for one match
  on a line that ends at \<open>lineEnd\<close>: no annotation (\<^verbatim>\<open>continue\<close>), one annotation, or
  the error a provider method threw.\<close>

definition annotationForMatch ::
  "unit_multiplier \<Rightarrow> 'e CalorieProvider \<Rightarrow> int \<Rightarrow> linked_match \<Rightarrow> 'e + CalorieAnnotation list" where
  "annotationForMatch getUnitMultiplier calorieProvider lineEnd m =
     (let amount = parseFloat (lm_amount m)
      in if amount \<le> 0 then Inr []
         else (let normalizedFileName = normalizeFileName (lm_name m)
               in if normalizedFileName = [] then Inr []
                  else (case getCaloriesForFood calorieProvider normalizedFileName of
                          Inl e \<Rightarrow> Inl e
                        | Inr None \<Rightarrow> Inr []
                        | Inr (Some caloriesPerHundred) \<Rightarrow>
                            (case getServingSize calorieProvider normalizedFileName of
                               Inl e \<Rightarrow> Inl e
                             | Inr servingSize \<Rightarrow>
                                 (let multiplier = getUnitMultiplier amount (lm_unit m) servingSize;
                                      calculatedCalories = multiplier * caloriesPerHundred
                                  in if calculatedCalories < 0 then Inr []
                                     else (let formattedCalories = js_round calculatedCalories
                                           in if formattedCalories < 0 then Inr []
                                              else Inr [\<lparr>position = lineEnd,
                                                         annotation_text =
                                                           showNat (nat formattedCalories) @ ''kcal''\<rparr>]))))))"

definition extractInlineCalorieAnnotations ::
  "unit_multiplier \<Rightarrow> string \<Rightarrow> int \<Rightarrow> 'e CalorieProvider \<Rightarrow> 'e + CalorieAnnotation list" where
  "extractInlineCalorieAnnotations getUnitMultiplier text startOffset calorieProvider =
     collectResults (\<lambda>(line, offset).
        collectResults (\<lambda>(i, m).
           annotationForMatch getUnitMultiplier calorieProvider
             (startOffset + int offset + int (length line)) m)
          (scanAll matchLinkedAt (\<lambda>m. length (lm_all m)) 0 0 line))
       (FHC_extractLinesUnderHeading text ''Food Log'')"

section \<open>The presentation tree\<close>

text \<open>
  A node of the rendered document is a text node or an element with its tag name (in
  capitals, as \<^verbatim>\<open>tagName\<close> gives it), its class list, its \<^verbatim>\<open>data-href\<close> attribute
  and its children. Comments and other node kinds, which the walkers pass over, are
  left out. A node inside a container is named by its path, the child indices from the
  container down.
\<close>

datatype dom = Text string | Element string "string list" "string option" "dom list"

fun children :: "dom \<Rightarrow> dom list" where
  "children (Text s) = []"
| "children (Element t c h cs) = cs"

fun setChildren :: "dom \<Rightarrow> dom list \<Rightarrow> dom" where
  "setChildren (Text s) cs = Text s"
| "setChildren (Element t c h old) cs = Element t c h cs"

fun textContentNodes :: "dom list \<Rightarrow> string" where
  "textContentNodes [] = []"
| "textContentNodes (Text s # rest) = s @ textContentNodes rest"
| "textContentNodes (Element t c h cs # rest) = textContentNodes cs @ textContentNodes rest"

definition textContent :: "dom \<Rightarrow> string" where
  "textContent n = textContentNodes [n]"

definition isHint :: "string list \<Rightarrow> bool" where
  "isHint classes = (''food-tracker-inline-calories'' \<in> set classes)"

definition isLink :: "string list \<Rightarrow> bool" where
  "isLink classes = (''internal-link'' \<in> set classes)"

definition isTag :: "string list \<Rightarrow> bool" where
  "isTag classes = (''tag'' \<in> set classes)"

definition isWrapper :: "string list \<Rightarrow> bool" where
  "isWrapper classes =
     (''food-tracker-value'' \<in> set classes \<or> ''food-tracker-nutrition-value'' \<in> set classes)"

text \<open>The text \<^verbatim>\<open>`[[${href}]]`\<close> of a link, with
  \<^verbatim>\<open>href = node.getAttribute("data-href") ?? node.textContent\<close>.\<close>

definition wikiLink :: "string option \<Rightarrow> dom list \<Rightarrow> string" where
  "wikiLink href cs =
     ''[['' @ (case href of Some h \<Rightarrow> h | None \<Rightarrow> textContentNodes cs) @ '']]''"

text \<open>
  \<^verbatim>\<open>reconstructMarkdownText\<close>: the tree walker visits the descendants of the container
  in document order, and \<^verbatim>\<open>skipNodeChildren\<close> makes it pass over the subtree of the
  current node. The functions below walk a list of siblings.
\<close>

fun reconstructNodes :: "dom list \<Rightarrow> string" where
  "reconstructNodes [] = []"
| "reconstructNodes (Text s # rest) = s @ reconstructNodes rest"
| "reconstructNodes (Element t c h cs # rest) =
     (if isHint c then reconstructNodes rest
      else if isLink c then wikiLink h cs @ reconstructNodes rest
      else if isTag c then textContentNodes cs @ reconstructNodes rest
      else if t = ''BR'' then [NL] @ reconstructNodes cs @ reconstructNodes rest
      else reconstructNodes cs @ reconstructNodes rest)"

definition reconstructMarkdownText :: "dom \<Rightarrow> string" where
  "reconstructMarkdownText container = reconstructNodes (children container)"

text \<open>
  \<^verbatim>\<open>containsRelevantTags\<close> tests \<^verbatim>\<open>/^##\s*Food Log$/im\<close>: with the flag \<^verbatim>\<open>m\<close> the
  pattern starts at the start of the text or behind a line terminator and ends at the
  end of the text or in front of a line terminator.
\<close>

definition matchFoodLogAt :: "string \<Rightarrow> bool" where
  "matchFoodLogAt s =
     (take 2 s = ''##'' \<and>
      (let r = dropWhile isWhitespace (drop 2 s)
       in ciPrefix ''food log'' r \<and>
          (case drop 8 r of [] \<Rightarrow> True | c # cs \<Rightarrow> isLineTerminator c)))"

fun testAtLineStarts :: "(string \<Rightarrow> bool) \<Rightarrow> bool \<Rightarrow> string \<Rightarrow> bool" where
  "testAtLineStarts P atStart [] = (atStart \<and> P [])"
| "testAtLineStarts P atStart (c # cs) =
     ((atStart \<and> P (c # cs)) \<or> testAtLineStarts P (isLineTerminator c) cs)"

definition containsRelevantTags :: "string \<Rightarrow> bool" where
  "containsRelevantTags text = testAtLineStarts matchFoodLogAt True text"

subsection \<open>Editing the tree\<close>

fun nodeAt :: "nat list \<Rightarrow> dom \<Rightarrow> dom option" where
  "nodeAt [] n = Some n"
| "nodeAt (i # p) (Text s) = None"
| "nodeAt (i # p) (Element t c h cs) = (if i < length cs then nodeAt p (cs ! i) else None)"

text \<open>The node at a path is replaced by a list of nodes (none to remove it).\<close>

fun replaceAt :: "nat list \<Rightarrow> dom list \<Rightarrow> dom \<Rightarrow> dom" where
  "replaceAt [] new n = n"
| "replaceAt (i # p) new (Text s) = Text s"
| "replaceAt [i] new (Element t c h cs) =
     (if i < length cs then Element t c h (take i cs @ new @ drop (Suc i) cs)
      else Element t c h cs)"
| "replaceAt (i # j # p) new (Element t c h cs) =
     (if i < length cs then Element t c h (cs[i := replaceAt (j # p) new (cs ! i)])
      else Element t c h cs)"

text \<open>\<^verbatim>\<open>content.substring(a, b)\<close> swaps its arguments when the first is larger.\<close>

definition substring :: "nat \<Rightarrow> nat \<Rightarrow> string \<Rightarrow> string" where
  "substring a b s = take (max a b - min a b) (drop (min a b) s)"

text \<open>A new \<^verbatim>\<open>span\<close> with a class name whose \<^verbatim>\<open>textContent\<close> has been set: the
  empty string leaves it without a child.\<close>

definition spanWith :: "string \<Rightarrow> string \<Rightarrow> dom" where
  "spanWith className s = Element ''SPAN'' [className] None (if s = [] then [] else [Text s])"

definition textIfAny :: "string \<Rightarrow> dom list" where
  "textIfAny s = (if s = [] then [] else [Text s])"

subsection \<open>Wrapping a range\<close>

text \<open>
  The first loop of \<^verbatim>\<open>wrapTextAtPosition\<close>: the entries of \<^verbatim>\<open>nodesToWrap\<close> (the path
  of the text node and the two offsets), the position reached, and whether the loop hit
  \<^verbatim>\<open>break\<close>. The arguments are the range, the path of the parent, the index of the
  first sibling, and the current position.
\<close>

type_synonym wrap_entry = "nat list \<times> nat \<times> nat"

fun collectWrap ::
  "int \<Rightarrow> int \<Rightarrow> nat list \<Rightarrow> nat \<Rightarrow> int \<Rightarrow> dom list \<Rightarrow> wrap_entry list \<times> int \<times> bool" where
  "collectWrap startPos endPos pre i pos [] = ([], pos, False)"
| "collectWrap startPos endPos pre i pos (Text s # rest) =
     (let textLength = int (length s);
          nodeEnd = pos + textLength;
          found = (if nodeEnd > startPos \<and> pos < endPos
                   then [(pre @ [i], nat (max 0 (startPos - pos)), nat (min textLength (endPos - pos)))]
                   else [])
      in if nodeEnd \<ge> endPos then (found, nodeEnd, True)
         else (case collectWrap startPos endPos pre (Suc i) nodeEnd rest of
                 (later, p, stopped) \<Rightarrow> (found @ later, p, stopped)))"
| "collectWrap startPos endPos pre i pos (Element t c h cs # rest) =
     (if isHint c then collectWrap startPos endPos pre (Suc i) pos rest
      else if isLink c then
        (let pos' = pos + int (length (wikiLink h cs))
         in if pos' \<ge> endPos then ([], pos', True)
            else collectWrap startPos endPos pre (Suc i) pos' rest)
      else if isTag c then
        (let pos' = pos + int (length (textContentNodes cs))
         in if pos' \<ge> endPos then ([], pos', True)
            else collectWrap startPos endPos pre (Suc i) pos' rest)
      else
        (let pos' = (if t = ''BR'' then pos + 1 else pos)
         in if t = ''BR'' \<and> pos' \<ge> endPos then ([], pos', True)
            else (case collectWrap startPos endPos (pre @ [i]) 0 pos' cs of
                    (found, p, stopped) \<Rightarrow>
                      if stopped then (found, p, True)
                      else (case collectWrap startPos endPos pre (Suc i) p rest of
                              (later, p', stopped') \<Rightarrow> (found @ later, p', stopped')))))"

definition textAt :: "nat list \<Rightarrow> dom \<Rightarrow> string" where
  "textAt p container = (case nodeAt p container of Some n \<Rightarrow> textContent n | None \<Rightarrow> [])"

text \<open>
  The second part of \<^verbatim>\<open>wrapTextAtPosition\<close>. Each step replaces one text node within
  its own parent, so the steps are independent; the model runs them from the last node
  to the first, which keeps the paths of the nodes still to come valid.
\<close>

definition applyWrap :: "string \<Rightarrow> wrap_entry list \<Rightarrow> dom \<Rightarrow> dom" where
  "applyWrap className nodesToWrap container =
     (case nodesToWrap of
        [] \<Rightarrow> container
      | [(p, startOffset, endOffset)] \<Rightarrow>
          (let cont = textAt p container;
               beforeText = substring 0 startOffset cont;
               matchText = substring startOffset endOffset cont;
               afterText = drop endOffset cont
           in replaceAt p (textIfAny beforeText @ [spanWith className matchText] @ textIfAny afterText) container)
      | (p, startOffset, endOffset) # others \<Rightarrow>
          (let cont = textAt p container;
               beforeText = substring 0 startOffset cont;
               matchText = substring startOffset endOffset cont;
               (pl, startOffsetL, endOffsetL) = last others;
               contentL = textAt pl container;
               matchL = substring startOffsetL endOffsetL contentL;
               afterL = drop endOffsetL contentL;
               middle = butlast others;
               spanText = matchText @ concat (map (\<lambda>(q, a, b). textAt q container) middle) @ matchL;
               c1 = replaceAt pl (textIfAny afterL) container;
               c2 = fold (\<lambda>(q, a, b). replaceAt q []) (rev middle) c1
           in replaceAt p (textIfAny beforeText @ [spanWith className spanText]) c2))"

definition wrapTextAtPosition :: "dom \<Rightarrow> int \<Rightarrow> int \<Rightarrow> string \<Rightarrow> dom" where
  "wrapTextAtPosition container startPos endPos className =
     applyWrap className (fst (collectWrap startPos endPos [] 0 0 (children container))) container"

subsection \<open>Highlighting\<close>

text \<open>Every element of one of the two wrapper classes below the container is replaced
  by a text node with its text content; a wrapper inside a replaced wrapper leaves the
  tree with it.\<close>

fun unwrapNodes :: "dom list \<Rightarrow> dom list" where
  "unwrapNodes [] = []"
| "unwrapNodes (Text s # rest) = Text s # unwrapNodes rest"
| "unwrapNodes (Element t c h cs # rest) =
     (if isWrapper c then Text (textContentNodes cs) # unwrapNodes rest
      else Element t c h (unwrapNodes cs) # unwrapNodes rest)"

definition getClassNameForType :: "highlight_type \<Rightarrow> string" where
  "getClassNameForType ty =
     (case ty of Amount \<Rightarrow> ''food-tracker-value'' | Nutrition \<Rightarrow> ''food-tracker-nutrition-value'')"

text \<open>\<^verbatim>\<open>[...ranges].sort((a, b) => b.start - a.start)\<close>: a stable sort, larger start
  first.\<close>

definition sortRanges :: "HighlightRange list \<Rightarrow> HighlightRange list" where
  "sortRanges ranges = sort_key (\<lambda>r. - hr_start r) ranges"

text \<open>The body of the loop over the sorted ranges.\<close>

definition wrapRange :: "HighlightRange \<Rightarrow> dom \<Rightarrow> dom" where
  "wrapRange rng container =
     wrapTextAtPosition container (hr_start rng) (hr_end rng) (getClassNameForType (hr_type rng))"

definition highlightMatches :: "dom \<Rightarrow> string \<Rightarrow> dom" where
  "highlightMatches container reconstructedText =
     fold wrapRange (sortRanges (extractMultilineHighlightRanges reconstructedText 0))
          (setChildren container (unwrapNodes (children container)))"

subsection \<open>Calorie hints\<close>

definition hintClass :: string where
  "hintClass = ''food-tracker-inline-calories''"

text \<open>\<^verbatim>\<open>container.querySelectorAll(".food-tracker-inline-calories").forEach(el => el.remove())\<close>\<close>

fun removeHintNodes :: "dom list \<Rightarrow> dom list" where
  "removeHintNodes [] = []"
| "removeHintNodes (Text s # rest) = Text s # removeHintNodes rest"
| "removeHintNodes (Element t c h cs # rest) =
     (if isHint c then removeHintNodes rest
      else Element t c h (removeHintNodes cs) # removeHintNodes rest)"

text \<open>The loop of \<^verbatim>\<open>findInsertionNodeAtPosition\<close>: the path of \<^verbatim>\<open>targetNode\<close> when the
  loop finds one, and the position reached.\<close>

fun findTarget :: "int \<Rightarrow> nat list \<Rightarrow> nat \<Rightarrow> int \<Rightarrow> dom list \<Rightarrow> nat list option \<times> int" where
  "findTarget pos pre i cur [] = (None, cur)"
| "findTarget pos pre i cur (Text s # rest) =
     (let textLength = int (length s)
      in if cur + textLength \<ge> pos then (Some (pre @ [i]), cur)
         else findTarget pos pre (Suc i) (cur + textLength) rest)"
| "findTarget pos pre i cur (Element t c h cs # rest) =
     (if isHint c then findTarget pos pre (Suc i) cur rest
      else if isLink c then
        (let wikiLinkLength = int (length (wikiLink h cs))
         in if cur + wikiLinkLength \<ge> pos then (Some (pre @ [i]), cur)
            else findTarget pos pre (Suc i) (cur + wikiLinkLength) rest)
      else if isTag c then
        (let tagLength = int (length (textContentNodes cs))
         in if cur + tagLength \<ge> pos then (Some (pre @ [i]), cur)
            else findTarget pos pre (Suc i) (cur + tagLength) rest)
      else if t = ''BR'' \<and> cur + 1 \<ge> pos then (Some (pre @ [i]), cur)
      else (case findTarget pos (pre @ [i]) 0 (if t = ''BR'' then cur + 1 else cur) cs of
              (Some q, cur') \<Rightarrow> (Some q, cur')
            | (None, cur') \<Rightarrow> findTarget pos pre (Suc i) cur' rest))"

text \<open>\<^verbatim>\<open>targetNode ?? container.lastChild\<close>; \<^const>\<open>None\<close> is \<^verbatim>\<open>null\<close>.\<close>

definition findInsertionNodeAtPosition :: "dom \<Rightarrow> int \<Rightarrow> nat list option" where
  "findInsertionNodeAtPosition container pos =
     (case fst (findTarget pos [] 0 0 (children container)) of
        Some q \<Rightarrow> Some q
      | None \<Rightarrow>
          if children container = [] then None
          else Some [length (children container) - 1])"

definition isValueElement :: "dom option \<Rightarrow> bool" where
  "isValueElement n =
     (case n of
        Some (Element t c h cs) \<Rightarrow>
          ''food-tracker-value'' \<in> set c \<or> ''food-tracker-nutrition-value'' \<in> set c \<or>
          ''food-tracker-negative-kcal'' \<in> set c
      | _ \<Rightarrow> False)"

text \<open>\<^verbatim>\<open>findInsertionPoint\<close> climbs from the target towards the container and returns
  the first node of one of the three classes, or the target.\<close>

definition findInsertionPoint :: "nat list \<Rightarrow> dom \<Rightarrow> nat list" where
  "findInsertionPoint target container =
     (case find (\<lambda>q. isValueElement (nodeAt q container))
                (map (\<lambda>n. take n target) (rev [1..<Suc (length target)])) of
        Some q \<Rightarrow> q
      | None \<Rightarrow> target)"

definition hintSpan :: "string \<Rightarrow> dom" where
  "hintSpan hintText = Element ''SPAN'' [hintClass] None [Text ('' '' @ hintText)]"

text \<open>The body of the loop over \<^verbatim>\<open>hintPositions\<close>: the hint becomes the next sibling of
  the insertion element, or the last child of the container.\<close>

definition insertHint :: "CalorieAnnotation \<Rightarrow> dom \<Rightarrow> dom" where
  "insertHint hint container =
     (case findInsertionNodeAtPosition container (position hint) of
        None \<Rightarrow> container
      | Some target \<Rightarrow>
          (let q = findInsertionPoint target container
           in case nodeAt q container of
                Some n \<Rightarrow> replaceAt q [n, hintSpan (annotation_text hint)] container
              | None \<Rightarrow>
                  setChildren container
                    (children container @ [hintSpan (annotation_text hint)])))"

subsection \<open>One pass over a container\<close>

text \<open>
  What \<^verbatim>\<open>process\<close> reads from its object: the cache \<^verbatim>\<open>this.nutrientCache\<close>, and through
  \<^verbatim>\<open>extractInlineCalorieAnnotations\<close> the imported \<^verbatim>\<open>getUnitMultiplier\<close>. The method
  \<^verbatim>\<open>getNutritionData\<close> of \<^verbatim>\<open>NutrientCache\<close> runs its lookups inside a handler that
  catches every error and returns \<^verbatim>\<open>null\<close>, so for \<^verbatim>\<open>process\<close> it is a function from
  names to nutrition facts or \<^verbatim>\<open>null\<close> that does not throw.
\<close>

record post_processor =
  nutrientCache :: "string \<Rightarrow> NutrientData option"
  unitMultiplier :: unit_multiplier

text \<open>What leaves \<^verbatim>\<open>process\<close> when it does not return.\<close>

datatype js_error = ReferenceError string

text \<open>
  The body of the loop reads \<^verbatim>\<open>settings.showCalorieHints\<close>. In the module of
  \<^verbatim>\<open>FoodHighlightPostProcessor\<close> the name \<^verbatim>\<open>settings\<close> is no import, no parameter, no
  local and no field (the class keeps \<^verbatim>\<open>this.settingsService\<close> and never reads it), and
  nothing in the sources of the plugin defines a global of that name. Evaluating the
  identifier throws a \<^verbatim>\<open>ReferenceError\<close>.
\<close>

record FoodTrackerPluginSettings =
  showCalorieHints :: bool

definition settings :: "js_error + FoodTrackerPluginSettings" where
  "settings = Inl (ReferenceError ''settings'')"

text \<open>The \<^verbatim>\<open>calorieProvider\<close> object that \<^verbatim>\<open>process\<close> builds.\<close>

definition cacheField ::
  "(string \<Rightarrow> NutrientData option) \<Rightarrow> nutrient_key \<Rightarrow> string \<Rightarrow> js_error + rat option" where
  "cacheField cache key fileName =
     (let normalized = trim fileName
      in if normalized = [] then Inr None
         else (case cache normalized of
                 None \<Rightarrow> Inr None
               | Some d \<Rightarrow> Inr (d key)))"

definition calorieProviderOf :: "(string \<Rightarrow> NutrientData option) \<Rightarrow> js_error CalorieProvider" where
  "calorieProviderOf cache =
     \<lparr>getCaloriesForFood = cacheField cache Calories,
      getServingSize = cacheField cache Serving_size\<rparr>"

text \<open>The array \<^verbatim>\<open>hintPositions\<close>, given the settings: the annotations when hints are
  shown, else none.\<close>

definition hintPositionsOf ::
  "post_processor \<Rightarrow> FoodTrackerPluginSettings \<Rightarrow> string \<Rightarrow> js_error + CalorieAnnotation list" where
  "hintPositionsOf this st reconstructedText =
     (if showCalorieHints st
      then extractInlineCalorieAnnotations (unitMultiplier this) reconstructedText 0
             (calorieProviderOf (nutrientCache this))
      else Inr [])"

text \<open>
  The body of the loop over the containers: the container after the pass, or the error
  that left the function. A container without text or without the heading line is
  skipped. For every other container the read of \<^verbatim>\<open>settings\<close> comes first, before
  \<^verbatim>\<open>highlightMatches\<close> and before any change of the tree; the statements behind it are
  given as the source has them.
\<close>

definition processContainer :: "post_processor \<Rightarrow> dom \<Rightarrow> js_error + dom" where
  "processContainer this container =
     (let reconstructedText = reconstructMarkdownText container
      in if reconstructedText = [] \<or> \<not> containsRelevantTags reconstructedText
         then Inr container
         else (case settings of
                 Inl e \<Rightarrow> Inl e
               | Inr st \<Rightarrow>
                   (case hintPositionsOf this st reconstructedText of
                      Inl e \<Rightarrow> Inl e
                    | Inr hintPositions \<Rightarrow>
                        (let highlighted = highlightMatches container reconstructedText;
                             cleared = setChildren highlighted
                                         (removeHintNodes (children highlighted))
                         in Inr (fold insertHint hintPositions cleared)))))"

subsection \<open>The containers of an element\<close>

text \<open>The selector \<^verbatim>\<open>p, li, div.HyperMD-list-line\<close>.\<close>

definition matchesContainerSelector :: "string \<Rightarrow> string list \<Rightarrow> bool" where
  "matchesContainerSelector t c =
     (t = ''P'' \<or> t = ''LI'' \<or> (t = ''DIV'' \<and> ''HyperMD-list-line'' \<in> set c))"

fun isContainer :: "dom \<Rightarrow> bool" where
  "isContainer (Text s) = False"
| "isContainer (Element t c h cs) = matchesContainerSelector t c"

text \<open>The number of elements in a list of trees whose tag name and class list satisfy a
  test.\<close>

fun countElems :: "(string \<Rightarrow> string list \<Rightarrow> bool) \<Rightarrow> dom list \<Rightarrow> nat" where
  "countElems P [] = 0"
| "countElems P (Text s # rest) = countElems P rest"
| "countElems P (Element t c h cs # rest) =
     (if P t c then 1 else 0) + countElems P cs + countElems P rest"

section \<open>Auxiliary notions and sample inputs\<close>

text \<open>What the error callback is called with for one entry: the file name and the thrown
  value when the lookup throws, nothing otherwise.\<close>

definition lookupErrors :: "'e lookup \<Rightarrow> FoodEntry \<Rightarrow> (string \<times> 'e) list" where
  "lookupErrors lk e = (case lk (filename e) of Inl err \<Rightarrow> [(filename e, err)] | Inr r \<Rightarrow> [])"

text \<open>The lookup of an entry returns nutrition facts.\<close>

definition lookupSucceeds :: "'e lookup \<Rightarrow> FoodEntry \<Rightarrow> bool" where
  "lookupSucceeds lk e = (case lk (filename e) of Inr (Some n) \<Rightarrow> True | _ \<Rightarrow> False)"

text \<open>A unit multiplier for the examples: the quantity over 100, whatever the unit.\<close>

definition sampleMultiplier :: unit_multiplier where
  "sampleMultiplier quantity u servingSize = quantity / 100"

definition noLookup :: "string lookup" where
  "noLookup name = Inr None"

definition sampleLookup :: "string lookup" where
  "sampleLookup name =
     (if name = ''apple'' then Inr (Some [Calories \<mapsto> 100, Protein \<mapsto> 10])
      else if name = ''broken'' then Inl ''cache down''
      else if name = ''broken too'' then Inl ''cache still down''
      else Inr None)"

definition sampleEntries :: "FoodEntry list" where
  "sampleEntries =
     [\<lparr>filename = ''broken'', amount = 100, unit = ''g''\<rparr>,
      \<lparr>filename = ''apple'', amount = 150, unit = ''g''\<rparr>,
      \<lparr>filename = ''unknown'', amount = 10, unit = ''g''\<rparr>,
      \<lparr>filename = ''broken too'', amount = 1, unit = ''g''\<rparr>,
      \<lparr>filename = ''apple'', amount = 50, unit = ''g''\<rparr>]"



definition otherSectionLog :: string where
  "otherSectionLog = ''## Meals'' @ [NL] @ ''Snack 200kcal''"

definition breakfastLog :: string where
  "breakfastLog = ''## Food Log'' @ [NL] @ ''Breakfast 300kcal''"


text \<open>A post-processor whose cache knows one food.\<close>

definition sampleCache :: "string \<Rightarrow> NutrientData option" where
  "sampleCache name =
     (if name = ''apple'' then Some [Calories \<mapsto> 100, Protein \<mapsto> 10] else None)"

definition sampleProcessor :: post_processor where
  "sampleProcessor = \<lparr>nutrientCache = sampleCache, unitMultiplier = sampleMultiplier\<rparr>"

text \<open>A paragraph with the heading line, a line break and a linked entry, as a preview
  holds it; the same paragraph with the wrapper and the hint that the statements behind
  the read of \<^verbatim>\<open>settings\<close> would build; a section element that holds a paragraph
  without the heading line and the paragraph with it; and a paragraph without the
  heading line.\<close>

definition appleParagraph :: dom where
  "appleParagraph =
     Element ''P'' [] None
       [Text ''## Food Log'', Element ''BR'' [] None [],
        Element ''A'' [''internal-link''] (Some ''apple'') [Text ''apple''], Text '' 150g'']"

definition appleParagraphDone :: dom where
  "appleParagraphDone =
     Element ''P'' [] None
       [Text ''## Food Log'', Element ''BR'' [] None [],
        Element ''A'' [''internal-link''] (Some ''apple'') [Text ''apple''], Text '' '',
        Element ''SPAN'' [''food-tracker-value''] None [Text ''150g''],
        Element ''SPAN'' [''food-tracker-inline-calories''] None [Text '' 150kcal'']]"

definition plainParagraph :: dom where
  "plainParagraph = Element ''P'' [] None [Text ''Lunch 300kcal'']"

definition previewSection :: dom where
  "previewSection = Element ''DIV'' [''markdown-preview-section''] None [plainParagraph, appleParagraph]"

text \<open>A paragraph in which an element of class \<open>tag\<close> holds the middle of a nutrient
  token, and what the first and the second pass make of it.\<close>

definition tagTokenParagraph :: dom where
  "tagTokenParagraph =
     Element ''P'' [] None
       [Text ''## Food Log'', Element ''BR'' [] None [], Text ''x 5'',
        Element ''A'' [''tag''] None [Text ''kc''], Text ''al'']"

definition tagTokenFirstPass :: dom where
  "tagTokenFirstPass =
     Element ''P'' [] None
       [Text ''## Food Log'', Element ''BR'' [] None [], Text ''x '',
        Element ''SPAN'' [''food-tracker-nutrition-value''] None [Text ''5al''],
        Element ''A'' [''tag''] None [Text ''kc'']]"

definition tagTokenSecondPass :: dom where
  "tagTokenSecondPass =
     Element ''P'' [] None
       [Text ''## Food Log'', Element ''BR'' [] None [], Text ''x '', Text ''5al'',
        Element ''A'' [''tag''] None [Text ''kc'']]"

text \<open>A paragraph as the renderer gives it for the line \<^verbatim>\<open>[[a]] 5g*7fat*\<close> under the
  heading line: a link, the amount, and an emphasised nutrient token right behind the
  unit. Then what the first and the second pass make of it.\<close>

definition emTokenParagraph :: dom where
  "emTokenParagraph =
     Element ''P'' [] None
       [Text ''## Food Log'', Element ''BR'' [] None [],
        Element ''A'' [''internal-link''] (Some ''a'') [Text ''a''], Text '' 5g'',
        Element ''EM'' [] None [Text ''7fat'']]"

definition emTokenFirstPass :: dom where
  "emTokenFirstPass =
     Element ''P'' [] None
       [Text ''## Food Log'', Element ''BR'' [] None [],
        Element ''A'' [''internal-link''] (Some ''a'') [Text ''a''], Text '' '',
        Element ''SPAN'' [''food-tracker-value''] None [Text ''5g7''],
        Element ''EM'' [] None
          [Element ''SPAN'' [''food-tracker-nutrition-value''] None [Text ''fat'']]]"

definition emTokenSecondPass :: dom where
  "emTokenSecondPass =
     Element ''P'' [] None
       [Text ''## Food Log'', Element ''BR'' [] None [],
        Element ''A'' [''internal-link''] (Some ''a'') [Text ''a''], Text '' '',
        Element ''SPAN'' [''food-tracker-value''] None [Text ''5g7''],
        Element ''SPAN'' [''food-tracker-nutrition-value''] None [Text ''fat''],
        Element ''EM'' [] None []]"

section \<open>Properties of the section extractors\<close>

lemma map_fst_fhc_loop: "map fst (fhc_loop h b off ls) = nc_loop h b ls"
  by (induction ls arbitrary: b off) (auto split: option.splits)

lemma nc_loop_step:
  "nc_loop h b (l # ls) =
     (if opensSection h l then nc_loop h True ls
      else if b \<and> closesSection h l then []
      else if b then l # nc_loop h b ls else nc_loop h b ls)"
  by (auto simp: opensSection_def closesSection_def split: option.splits)

lemma nc_loop_closed: "list_all (\<lambda>l. \<not> opensSection h l) ls \<Longrightarrow> nc_loop h False ls = []"
  by (induction ls) (simp_all add: nc_loop_step del: nc_loop.simps(2))

lemma fhc_loop_closed: "list_all (\<lambda>l. \<not> opensSection h l) ls \<Longrightarrow> fhc_loop h False off ls = []"
  using map_fst_fhc_loop [of h False off ls] by (simp add: nc_loop_closed)





section \<open>Properties of the totals\<close>








lemma workoutAdjust_Nil: "workoutAdjust [] t = (Map.empty, t)"
  by (simp add: workoutAdjust_def)

lemma calculateNutritionTotals_None:
  "fst (calculateNutritionTotals g p) = None \<longleftrightarrow>
     parseFoodEntriesFromLines (NC_extractLinesUnderHeading (content p) ''Food Log'') = [] \<and>
     parseInlineNutrientEntriesFromLines (NC_extractLinesUnderHeading (content p) ''Food Log'') = []"
  by (simp add: calculateNutritionTotals_def Let_def workoutAdjust_Nil split: prod.splits)

lemma calculateNutritionTotals_Some:
  assumes "fst (calculateNutritionTotals g p) = Some r"
  shows "workoutTotals r = Map.empty"
    and "inlineTotals r = calculateInlineTotals
           (parseInlineNutrientEntriesFromLines (NC_extractLinesUnderHeading (content p) ''Food Log''))"
    and "linkedTotals r = fst (calculateTotals g
           (parseFoodEntriesFromLines (NC_extractLinesUnderHeading (content p) ''Food Log''))
           (getNutritionData p))"
    and "combinedTotals r = combineNutrients (linkedTotals r) (inlineTotals r)"
    and "clampedTotals r = clampNutrientsToZero (combinedTotals r)"
    and "goalProgress r = map_option (calculateGoalProgress (clampedTotals r)) (goals p)"
  using assms
  by (auto simp: calculateNutritionTotals_def Let_def workoutAdjust_Nil split: prod.splits if_splits)

lemma fold_totalsStep_calls:
  "snd (fold (totalsStep g lk) es (t, c)) = c @ concat (map (lookupErrors lk) es)"
  by (induction es arbitrary: t c)
     (auto simp: totalsStep_def lookupErrors_def split: sum.splits option.splits)

lemma fold_totalsStep_filter:
  "fst (fold (totalsStep g lk) es (t, c)) =
   fst (fold (totalsStep g lk) (filter (lookupSucceeds lk) es) (t, c'))"
  by (induction es arbitrary: t c c')
     (auto simp: totalsStep_def lookupSucceeds_def split: sum.splits option.splits)

lemma fold_totalsStep_success:
  "list_all (lookupSucceeds lk) es \<Longrightarrow>
   fst (fold (totalsStep g lk) es (t, c)) =
   fold (\<lambda>e t. case lk (filename e) of
                 Inr (Some n) \<Rightarrow> addNutrients t n (g (amount e) (unit e) (n Serving_size))
               | _ \<Rightarrow> t) es t"
  by (induction es arbitrary: t c)
     (auto simp: totalsStep_def lookupSucceeds_def split: sum.splits option.splits)

text \<open>The sample logs, evaluated.\<close>

lemma breakfast_inline_totals:
  "calculateInlineTotals (parseInlineNutrientEntriesFromLines
       (NC_extractLinesUnderHeading breakfastLog ''Food Log'')) Calories = Some 300"
  by code_simp

lemma breakfast_workout_totals:
  "calculateInlineTotals (filterValidWorkoutEntries (parseInlineNutrientEntriesFromLines
       (NC_extractLinesUnderHeading breakfastLog ''Food Log''))) Calories = Some 300"
  by code_simp

lemma breakfast_has_entries:
  "parseInlineNutrientEntriesFromLines (NC_extractLinesUnderHeading breakfastLog ''Food Log'') \<noteq> []"
  by code_simp









text \<open>Where the doubles and exact arithmetic part: 23 consumed of a goal of 40 is 57.5
  percent exactly, which rounds to 58, and \<open>57.49999999999999\<close> in doubles, which
  rounds to 57.\<close>

lemma double_percent_below_tie:
  "calculateGoalProgress [Calories \<mapsto> 23] [Calories \<mapsto> Finite 40] Calories =
     Some \<lparr>remaining = Finite 17, percentConsumed = Finite 57, percentRemaining = Finite 43\<rparr> \<and>
   js_round ((23 / 40) * 100) = 58"
  by code_simp

lemma toDouble_tenth: "toDouble (1 / 10) = Finite (3602879701896397 / 36028797018963968)"
  by code_simp

text \<open>A level-1 heading closes the section also when its title is the wanted one.\<close>

lemma level_one_target_heading_closes:
  "closesSection ''Food Log'' ''# Food Log'' \<and>
   NC_extractLinesUnderHeading
     (''## Food Log'' @ [NL] @ ''a'' @ [NL] @ ''# Food Log'' @ [NL] @ ''b'') ''Food Log'' = [''a'']"
  by code_simp

section \<open>Properties of the tree edits\<close>
lemma countElems_append: "countElems P (xs @ ys) = countElems P xs + countElems P ys"
  by (induction P xs rule: countElems.induct) simp_all

lemma countElems_Cons: "countElems P (x # xs) = countElems P [x] + countElems P xs"
  using countElems_append [of P "[x]" xs] by simp

lemma countElems_nth_split:
  assumes "i < length cs"
  shows "countElems P cs =
     countElems P (take i cs) + countElems P [cs ! i] + countElems P (drop (Suc i) cs)"
proof -
  have "countElems P (take i cs @ cs ! i # drop (Suc i) cs) =
      countElems P (take i cs) + countElems P [cs ! i] + countElems P (drop (Suc i) cs)"
    using countElems_Cons [of P "cs ! i" "drop (Suc i) cs"] by (simp add: countElems_append)
  then show ?thesis
    using id_take_nth_drop [OF assms] by simp
qed

lemma countElems_update:
  assumes "i < length cs"
  shows "countElems P (cs[i := x]) =
     countElems P (take i cs) + countElems P [x] + countElems P (drop (Suc i) cs)"
proof -
  have "countElems P (take i cs @ x # drop (Suc i) cs) =
      countElems P (take i cs) + countElems P [x] + countElems P (drop (Suc i) cs)"
    using countElems_Cons [of P x "drop (Suc i) cs"] by (simp add: countElems_append)
  then show ?thesis
    using upd_conv_take_nth_drop [OF assms] by simp
qed

lemma countElems_replaceAt:
  "countElems P [replaceAt p new n] \<le> countElems P [n] + countElems P new"
proof (induction p new n rule: replaceAt.induct)
  case (3 i new t c h cs)
  show ?case
  proof (cases "i < length cs")
    case True
    then show ?thesis
      using countElems_nth_split [OF True, of P]
      by (simp add: countElems_append)
  qed simp
next
  case (4 i j p new t c h cs)
  show ?case
  proof (cases "i < length cs")
    case True
    then show ?thesis
      using countElems_nth_split [OF True, of P] countElems_update [OF True, of P] 4
      by simp
  qed simp
qed simp_all

lemma countElems_insert_after:
  "nodeAt q n = Some x \<Longrightarrow> q \<noteq> [] \<Longrightarrow>
   countElems P [replaceAt q (x # new) n] = countElems P [n] + countElems P new"
proof (induction q "x # new" n rule: replaceAt.induct)
  case (3 i t c h cs)
  then show ?case
    using countElems_nth_split [of i cs P] countElems_Cons [of P x "new @ drop (Suc i) cs"]
    by (auto simp: countElems_append split: if_splits)
next
  case (4 i j p t c h cs)
  then show ?case
    using countElems_nth_split [of i cs P] countElems_update [of i cs P]
    by (auto split: if_splits)
qed simp_all

lemma countElems_unwrapNodes_le: "countElems P (unwrapNodes cs) \<le> countElems P cs"
  by (induction cs rule: unwrapNodes.induct) auto

lemma countElems_unwrapNodes_none: "countElems (\<lambda>t c. isWrapper c) (unwrapNodes cs) = 0"
  by (induction cs rule: unwrapNodes.induct) auto

lemma countElems_removeHintNodes_le: "countElems P (removeHintNodes cs) \<le> countElems P cs"
  by (induction cs rule: removeHintNodes.induct) auto

lemma countElems_removeHintNodes_none: "countElems (\<lambda>t c. isHint c) (removeHintNodes cs) = 0"
  by (induction cs rule: removeHintNodes.induct) auto

lemma unwrapNodes_idem: "unwrapNodes (unwrapNodes cs) = unwrapNodes cs"
  by (induction cs rule: unwrapNodes.induct) auto

lemma removeHintNodes_idem: "removeHintNodes (removeHintNodes cs) = removeHintNodes cs"
  by (induction cs rule: removeHintNodes.induct) auto


lemma countElems_root:
  "countElems P [n] = countElems P [setChildren n []] + countElems P (children n)"
  by (cases n) simp_all

lemma root_replaceAt: "setChildren (replaceAt p new n) [] = setChildren n []"
  by (induction p new n rule: replaceAt.induct) simp_all

lemma root_setChildren: "setChildren (setChildren n cs) [] = setChildren n []"
  by (cases n) simp_all

lemma children_setChildren_root: "setChildren n (children n) = n"
  by (cases n) simp_all

lemma countElems_textIfAny: "countElems P (textIfAny s) = 0"
  by (simp add: textIfAny_def)

lemma countElems_spanWith:
  "countElems P (spanWith cls s # xs) = (if P ''SPAN'' [cls] then 1 else 0) + countElems P xs"
  by (simp add: spanWith_def)

lemma remove_entry_fun: "(\<lambda>(q, a, b). replaceAt q []) = (\<lambda>e. replaceAt (fst e) [])"
  by (auto simp: fun_eq_iff)

lemma countElems_fold_remove:
  "countElems P [fold (\<lambda>(q, a, b). replaceAt q []) xs n] \<le> countElems P [n]"
  unfolding remove_entry_fun
proof (induction xs arbitrary: n)
  case (Cons x xs)
  have "countElems P [fold (\<lambda>e. replaceAt (fst e) []) xs (replaceAt (fst x) [] n)]
      \<le> countElems P [replaceAt (fst x) [] n]"
    by (rule Cons.IH)
  also have "\<dots> \<le> countElems P [n]"
    using countElems_replaceAt [of P "fst x" "[]" n] by simp
  finally show ?case by simp
qed simp

lemma root_fold_remove:
  "setChildren (fold (\<lambda>(q, a, b). replaceAt q []) xs n) [] = setChildren n []"
  unfolding remove_entry_fun
  by (induction xs arbitrary: n) (auto simp: root_replaceAt)

lemma countElems_applyWrap:
  "countElems P [applyWrap cls es n] \<le> countElems P [n] + (if P ''SPAN'' [cls] then 1 else 0)"
proof (cases es)
  case Nil
  then show ?thesis by (simp add: applyWrap_def)
next
  case (Cons e rest)
  obtain p a b where e: "e = (p, a, b)" by (cases e) auto
  show ?thesis
  proof (cases rest)
    case Nil
    have "countElems P [replaceAt p (textIfAny (substring 0 a (textAt p n)) @
             [spanWith cls (substring a b (textAt p n))] @ textIfAny (drop b (textAt p n))) n]
        \<le> countElems P [n] + countElems P (textIfAny (substring 0 a (textAt p n)) @
             [spanWith cls (substring a b (textAt p n))] @ textIfAny (drop b (textAt p n)))"
      by (rule countElems_replaceAt)
    then show ?thesis
      using Cons Nil e
      by (simp add: applyWrap_def Let_def countElems_append countElems_textIfAny countElems_spanWith)
  next
    case (Cons e2 rest2)
    obtain pl al bl where l: "last rest = (pl, al, bl)" by (cases "last rest") auto
    define c1 where "c1 = replaceAt pl (textIfAny (drop bl (textAt pl n))) n"
    define c2 where "c2 = fold (\<lambda>(q, a, b). replaceAt q []) (rev (butlast rest)) c1"
    define spanText where "spanText = substring a b (textAt p n) @
        concat (map (\<lambda>(q, a, b). textAt q n) (butlast rest)) @ substring al bl (textAt pl n)"
    have r: "applyWrap cls es n =
        replaceAt p (textIfAny (substring 0 a (textAt p n)) @ [spanWith cls spanText]) c2"
      using \<open>es = e # rest\<close> Cons e l
      by (simp add: applyWrap_def Let_def c1_def c2_def spanText_def)
    have "countElems P [c1] \<le> countElems P [n]"
      using countElems_replaceAt [of P pl "textIfAny (drop bl (textAt pl n))" n]
      by (simp add: c1_def countElems_textIfAny)
    moreover have "countElems P [c2] \<le> countElems P [c1]"
      unfolding c2_def by (rule countElems_fold_remove)
    moreover have "countElems P [replaceAt p (textIfAny (substring 0 a (textAt p n)) @
          [spanWith cls spanText]) c2]
        \<le> countElems P [c2] + countElems P (textIfAny (substring 0 a (textAt p n)) @
          [spanWith cls spanText])"
      by (rule countElems_replaceAt)
    ultimately show ?thesis
      unfolding r by (simp add: countElems_append countElems_textIfAny countElems_spanWith)
  qed
qed

lemma root_applyWrap: "setChildren (applyWrap cls es n) [] = setChildren n []"
proof (cases es)
  case Nil
  then show ?thesis by (simp add: applyWrap_def)
next
  case (Cons e rest)
  obtain p a b where e: "e = (p, a, b)" by (cases e) auto
  show ?thesis
  proof (cases rest)
    case Nil
    then show ?thesis
      using Cons e by (simp add: applyWrap_def Let_def root_replaceAt)
  next
    case (Cons e2 rest2)
    obtain pl al bl where l: "last rest = (pl, al, bl)" by (cases "last rest") auto
    show ?thesis
      using \<open>es = e # rest\<close> Cons e l
      by (simp add: applyWrap_def Let_def root_replaceAt root_fold_remove)
  qed
qed


lemma countElems_wrapRange: "countElems P [wrapRange r n] \<le> countElems P [n] + 1"
proof -
  have "countElems P [wrapRange r n] \<le> countElems P [n] +
      (if P ''SPAN'' [getClassNameForType (hr_type r)] then 1 else 0)"
    unfolding wrapRange_def wrapTextAtPosition_def by (rule countElems_applyWrap)
  then show ?thesis by (simp split: if_splits)
qed

lemma countElems_wrapRange_other:
  assumes "\<not> P ''SPAN'' [''food-tracker-value'']" and "\<not> P ''SPAN'' [''food-tracker-nutrition-value'']"
  shows "countElems P [wrapRange r n] \<le> countElems P [n]"
proof -
  have "\<not> P ''SPAN'' [getClassNameForType (hr_type r)]"
    using assms by (cases "hr_type r") (simp_all add: getClassNameForType_def)
  moreover have "countElems P [wrapRange r n] \<le> countElems P [n] +
      (if P ''SPAN'' [getClassNameForType (hr_type r)] then 1 else 0)"
    unfolding wrapRange_def wrapTextAtPosition_def by (rule countElems_applyWrap)
  ultimately show ?thesis by simp
qed

lemma root_wrapRange: "setChildren (wrapRange r n) [] = setChildren n []"
  by (simp add: wrapRange_def wrapTextAtPosition_def root_applyWrap)

lemma countElems_fold_wrapRange:
  "countElems P [fold wrapRange rs n] \<le> countElems P [n] + length rs"
proof (induction rs arbitrary: n)
  case (Cons r rs)
  have "countElems P [fold wrapRange rs (wrapRange r n)] \<le> countElems P [wrapRange r n] + length rs"
    by (rule Cons.IH)
  then show ?case using countElems_wrapRange [of P r n] by simp
qed simp

lemma countElems_fold_wrapRange_other:
  assumes "\<not> P ''SPAN'' [''food-tracker-value'']" and "\<not> P ''SPAN'' [''food-tracker-nutrition-value'']"
  shows "countElems P [fold wrapRange rs n] \<le> countElems P [n]"
proof (induction rs arbitrary: n)
  case (Cons r rs)
  have "countElems P [fold wrapRange rs (wrapRange r n)] \<le> countElems P [wrapRange r n]"
    by (rule Cons.IH)
  then show ?case using countElems_wrapRange_other [where P = P, OF assms, of r n] by simp
qed simp

lemma root_fold_wrapRange: "setChildren (fold wrapRange rs n) [] = setChildren n []"
  by (induction rs arbitrary: n) (simp_all add: root_wrapRange)

lemma root_highlightMatches: "setChildren (highlightMatches n text) [] = setChildren n []"
  by (simp add: highlightMatches_def root_fold_wrapRange root_setChildren)

lemma countElems_setChildren:
  "countElems P [setChildren n cs] \<le> countElems P [setChildren n []] + countElems P cs"
  by (cases n) simp_all

lemma countElems_setChildren_le:
  "countElems P cs \<le> countElems P (children n) \<Longrightarrow> countElems P [setChildren n cs] \<le> countElems P [n]"
  by (cases n) simp_all

lemma countElems_highlightMatches_other:
  assumes "\<not> P ''SPAN'' [''food-tracker-value'']" and "\<not> P ''SPAN'' [''food-tracker-nutrition-value'']"
  shows "countElems P [highlightMatches n text] \<le> countElems P [n]"
proof -
  have "countElems P [highlightMatches n text]
      \<le> countElems P [setChildren n (unwrapNodes (children n))]"
    unfolding highlightMatches_def by (rule countElems_fold_wrapRange_other [where P = P, OF assms])
  also have "\<dots> \<le> countElems P [n]"
    by (rule countElems_setChildren_le) (rule countElems_unwrapNodes_le)
  finally show ?thesis .
qed

lemma length_sortRanges: "length (sortRanges rs) = length rs"
  by (simp add: sortRanges_def)

lemma children_setChildren: "children (setChildren n cs) = (case n of Text s \<Rightarrow> [] | Element t c h old \<Rightarrow> cs)"
  by (cases n) simp_all

lemma countElems_children_le:
  assumes "setChildren a [] = setChildren b []" and "countElems P [a] \<le> countElems P [b] + k"
  shows "countElems P (children a) \<le> countElems P (children b) + k"
  using assms countElems_root [of P a] countElems_root [of P b] by simp

lemma wrappers_after_highlightMatches:
  "countElems (\<lambda>t c. isWrapper c) (children (highlightMatches n text))
     \<le> length (extractMultilineHighlightRanges text 0)"
proof -
  let ?P = "\<lambda>t c. isWrapper c"
  let ?u = "setChildren n (unwrapNodes (children n))"
  have "countElems ?P [highlightMatches n text]
      \<le> countElems ?P [?u] + length (extractMultilineHighlightRanges text 0)"
    unfolding highlightMatches_def
    using countElems_fold_wrapRange [of ?P "sortRanges (extractMultilineHighlightRanges text 0)" ?u]
    by (simp add: length_sortRanges)
  moreover have "setChildren (highlightMatches n text) [] = setChildren ?u []"
    by (simp add: root_highlightMatches root_setChildren)
  ultimately have "countElems ?P (children (highlightMatches n text))
      \<le> countElems ?P (children ?u) + length (extractMultilineHighlightRanges text 0)"
    by (rule countElems_children_le [rotated])
  moreover have "countElems ?P (children ?u) = 0"
    by (cases n) (simp_all add: countElems_unwrapNodes_none)
  ultimately show ?thesis by simp
qed

lemma countElems_hintSpan:
  "countElems P (x # [hintSpan s]) = countElems P [x] + (if P ''SPAN'' [hintClass] then 1 else 0)"
  using countElems_Cons [of P x "[hintSpan s]"] by (simp add: hintSpan_def)

lemma countElems_insertHint:
  "countElems P [insertHint a n] \<le> countElems P [n] + (if P ''SPAN'' [hintClass] then 1 else 0)"
proof (cases "findInsertionNodeAtPosition n (position a)")
  case None
  then show ?thesis by (simp add: insertHint_def)
next
  case (Some target)
  define q where "q = findInsertionPoint target n"
  have ih: "insertHint a n =
      (case nodeAt q n of
         Some x \<Rightarrow> replaceAt q [x, hintSpan (annotation_text a)] n
       | None \<Rightarrow> setChildren n (children n @ [hintSpan (annotation_text a)]))"
    unfolding q_def using Some by (simp add: insertHint_def Let_def)
  show ?thesis
  proof (cases "nodeAt q n")
    case None
    have "countElems P [setChildren n (children n @ [hintSpan (annotation_text a)])]
        \<le> countElems P [n] + (if P ''SPAN'' [hintClass] then 1 else 0)"
      by (cases n) (simp_all add: countElems_append hintSpan_def)
    then show ?thesis using None by (simp add: ih)
  next
    case (Some x)
    show ?thesis
    proof (cases "q = []")
      case True
      have "insertHint a n = n"
        by (simp only: ih True nodeAt.simps option.case replaceAt.simps)
      then show ?thesis by simp
    next
      case False
      have "countElems P [replaceAt q (x # [hintSpan (annotation_text a)]) n]
          = countElems P [n] + countElems P [hintSpan (annotation_text a)]"
        by (rule countElems_insert_after [OF Some False])
      then show ?thesis using Some by (simp add: ih hintSpan_def)
    qed
  qed
qed

lemma root_insertHint: "setChildren (insertHint a n) [] = setChildren n []"
  by (simp add: insertHint_def Let_def root_replaceAt root_setChildren split: option.splits)

lemma countElems_fold_insertHint:
  "countElems P [fold insertHint hs n] \<le> countElems P [n] + length hs"
proof (induction hs arbitrary: n)
  case (Cons a hs)
  have "countElems P [fold insertHint hs (insertHint a n)] \<le> countElems P [insertHint a n] + length hs"
    by (rule Cons.IH)
  then show ?case using countElems_insertHint [of P a n] by (simp split: if_splits)
qed simp

lemma countElems_fold_insertHint_other:
  assumes "\<not> P ''SPAN'' [hintClass]"
  shows "countElems P [fold insertHint hs n] \<le> countElems P [n]"
proof (induction hs arbitrary: n)
  case (Cons a hs)
  have "countElems P [fold insertHint hs (insertHint a n)] \<le> countElems P [insertHint a n]"
    by (rule Cons.IH)
  then show ?case using countElems_insertHint [of P a n] assms by simp
qed simp

lemma root_fold_insertHint: "setChildren (fold insertHint hs n) [] = setChildren n []"
  by (induction hs arbitrary: n) (simp_all add: root_insertHint)

lemma span_not_container: "\<not> matchesContainerSelector ''SPAN'' c"
  by (simp add: matchesContainerSelector_def)

text \<open>A pass over a container skips it or throws at the read of \<^verbatim>\<open>settings\<close>.\<close>

lemma processContainer_cases:
  "processContainer this n =
     (if reconstructMarkdownText n = [] \<or> \<not> containsRelevantTags (reconstructMarkdownText n)
      then Inr n else Inl (ReferenceError ''settings''))"
  by (simp add: processContainer_def settings_def Let_def)

section \<open>The entry point of the post-processor\<close>

text \<open>
  \<^verbatim>\<open>process\<close> runs the pass on the element itself when it matches the container
  selector, and otherwise on every descendant that matches, in document order. A
  container inside another container is reached after the pass over the outer one. The
  first container for which the pass throws ends \<^verbatim>\<open>process\<close>: it has no handler.
\<close>

lemma processContainer_children_measure:
  assumes m: "matchesContainerSelector t c"
    and p: "processContainer this (Element t c h cs) = Inr container"
  shows "countElems matchesContainerSelector (children container)
      < countElems matchesContainerSelector (Element t c h cs # rest)"
proof -
  have "container = Element t c h cs"
    using p by (simp add: processContainer_cases split: if_splits)
  then show ?thesis using m by simp
qed

function processNodes :: "post_processor \<Rightarrow> dom list \<Rightarrow> js_error + dom list" where
  "processNodes this [] = Inr []"
| "processNodes this (Text s # rest) =
     (case processNodes this rest of
        Inl e \<Rightarrow> Inl e
      | Inr rest' \<Rightarrow> Inr (Text s # rest'))"
| "processNodes this (Element t c h cs # rest) =
     (if matchesContainerSelector t c
      then (case processContainer this (Element t c h cs) of
              Inl e \<Rightarrow> Inl e
            | Inr container \<Rightarrow>
                (case processNodes this (children container) of
                   Inl e \<Rightarrow> Inl e
                 | Inr cs' \<Rightarrow>
                     (case processNodes this rest of
                        Inl e \<Rightarrow> Inl e
                      | Inr rest' \<Rightarrow> Inr (setChildren container cs' # rest'))))
      else (case processNodes this cs of
              Inl e \<Rightarrow> Inl e
            | Inr cs' \<Rightarrow>
                (case processNodes this rest of
                   Inl e \<Rightarrow> Inl e
                 | Inr rest' \<Rightarrow> Inr (Element t c h cs' # rest'))))"
  by pat_completeness auto
termination
proof (relation "measures [\<lambda>(this, ns). countElems matchesContainerSelector ns,
                            \<lambda>(this, ns). size_list size ns]", goal_cases)
  case 1
  show ?case by simp
next
  case (2 this s rest)
  show ?case by simp
next
  case (3 this t c h cs rest container)
  show ?case using processContainer_children_measure [OF 3(1,2), of rest] by simp
next
  case (4 this t c h cs rest container cs')
  show ?case by auto
next
  case (5 this t c h cs rest)
  show ?case by auto
next
  case (6 this t c h cs rest cs')
  show ?case by auto
qed

definition process :: "post_processor \<Rightarrow> dom \<Rightarrow> js_error + dom" where
  "process this el =
     (if isContainer el then processContainer this el
      else (case processNodes this (children el) of
              Inl e \<Rightarrow> Inl e
            | Inr cs' \<Rightarrow> Inr (setChildren el cs')))"

section \<open>Properties of the post-processor\<close>

text \<open>A pass changes nothing: it returns the nodes it was given, or it throws the
  \<^verbatim>\<open>ReferenceError\<close>.\<close>

lemma processNodes_cases:
  "processNodes this ns = Inr ns \<or> processNodes this ns = Inl (ReferenceError ''settings'')"
proof (induction this ns rule: processNodes.induct)
  case (1 this)
  show ?case by simp
next
  case (2 this s rest)
  then show ?case by auto
next
  case (3 this t c h cs rest)
  show ?case
  proof (cases "matchesContainerSelector t c")
    case True
    note m = True
    show ?thesis
    proof (cases "reconstructMarkdownText (Element t c h cs) = [] \<or>
        \<not> containsRelevantTags (reconstructMarkdownText (Element t c h cs))")
      case True
      then have pc: "processContainer this (Element t c h cs) = Inr (Element t c h cs)"
        by (simp add: processContainer_cases)
      have a: "processNodes this cs = Inr cs \<or> processNodes this cs = Inl (ReferenceError ''settings'')"
        using 3(1) [OF m pc] by simp
      show ?thesis
      proof (cases "processNodes this cs")
        case (Inl e)
        with a m pc show ?thesis by simp
      next
        case (Inr cs')
        with a have cs': "processNodes this cs = Inr cs" by simp
        have "processNodes this rest = Inr rest \<or>
            processNodes this rest = Inl (ReferenceError ''settings'')"
          using 3(2) [OF m pc] cs' by simp
        with m pc cs' show ?thesis by auto
      qed
    next
      case False
      then have "processContainer this (Element t c h cs) = Inl (ReferenceError ''settings'')"
        by (simp add: processContainer_cases)
      with m show ?thesis by simp
    qed
  next
    case False
    note m = False
    have a: "processNodes this cs = Inr cs \<or> processNodes this cs = Inl (ReferenceError ''settings'')"
      using 3(3) [OF m] .
    show ?thesis
    proof (cases "processNodes this cs")
      case (Inl e)
      with a m show ?thesis by simp
    next
      case (Inr cs')
      with a have cs': "processNodes this cs = Inr cs" by simp
      have "processNodes this rest = Inr rest \<or>
          processNodes this rest = Inl (ReferenceError ''settings'')"
        using 3(4) [OF m cs'] .
      with m cs' show ?thesis by auto
    qed
  qed
qed

lemma process_cases:
  "process this el = Inr el \<or> process this el = Inl (ReferenceError ''settings'')"
proof (cases "isContainer el")
  case True
  then show ?thesis by (simp add: process_def processContainer_cases)
next
  case False
  have "setChildren el (children el) = el" by (rule children_setChildren_root)
  with False processNodes_cases [of this "children el"] show ?thesis
    by (auto simp: process_def)
qed

text \<open>The passes over the sample elements.\<close>

lemma apple_paragraph_text:
  "reconstructMarkdownText appleParagraph = ''## Food Log'' @ [NL] @ ''[[apple]] 150g'' \<and>
   containsRelevantTags (reconstructMarkdownText appleParagraph)"
  by code_simp

lemma apple_paragraph_throws:
  "process sampleProcessor appleParagraph = Inl (ReferenceError ''settings'')"
  by code_simp

lemma preview_section_throws:
  "process sampleProcessor previewSection = Inl (ReferenceError ''settings'')"
  by code_simp

lemma plain_paragraph_returns: "process sampleProcessor plainParagraph = Inr plainParagraph"
  by code_simp

text \<open>The statements behind the read of \<^verbatim>\<open>settings\<close>, with hints shown, on the sample
  paragraph and on their own result.\<close>

lemma apple_hints:
  "hintPositionsOf sampleProcessor \<lparr>showCalorieHints = True\<rparr> (reconstructMarkdownText appleParagraph)
     = Inr [\<lparr>position = 26, annotation_text = ''150kcal''\<rparr>]"
  by code_simp

lemma apple_highlighted:
  "fold insertHint [\<lparr>position = 26, annotation_text = ''150kcal''\<rparr>]
     (let highlighted = highlightMatches appleParagraph (reconstructMarkdownText appleParagraph)
      in setChildren highlighted (removeHintNodes (children highlighted)))
   = appleParagraphDone"
  by code_simp

lemma apple_highlighted_again:
  "reconstructMarkdownText appleParagraphDone = reconstructMarkdownText appleParagraph \<and>
   fold insertHint [\<lparr>position = 26, annotation_text = ''150kcal''\<rparr>]
     (let highlighted = highlightMatches appleParagraphDone (reconstructMarkdownText appleParagraphDone)
      in setChildren highlighted (removeHintNodes (children highlighted)))
   = appleParagraphDone"
  by code_simp

text \<open>\<^verbatim>\<open>highlightMatches\<close> on the two paragraphs with a token across an element, and on
  its own results.\<close>

lemma tag_token_first:
  "highlightMatches tagTokenParagraph (reconstructMarkdownText tagTokenParagraph) = tagTokenFirstPass"
  by code_simp

lemma tag_token_second:
  "highlightMatches tagTokenFirstPass (reconstructMarkdownText tagTokenFirstPass) = tagTokenSecondPass"
  by code_simp

lemma tag_token_differ: "tagTokenFirstPass \<noteq> tagTokenSecondPass"
  by (simp add: tagTokenFirstPass_def tagTokenSecondPass_def)

lemma em_token_text:
  "reconstructMarkdownText emTokenFirstPass = reconstructMarkdownText emTokenParagraph"
  by code_simp

lemma em_token_ranges:
  "extractMultilineHighlightRanges (reconstructMarkdownText emTokenParagraph) 0 =
     [\<lparr>hr_start = 18, hr_end = 21, hr_type = Amount\<rparr>,
      \<lparr>hr_start = 20, hr_end = 24, hr_type = Nutrition\<rparr>]"
  by code_simp

lemma em_token_first:
  "highlightMatches emTokenParagraph (reconstructMarkdownText emTokenParagraph) = emTokenFirstPass"
  by code_simp

lemma em_token_second:
  "highlightMatches emTokenFirstPass (reconstructMarkdownText emTokenFirstPass) = emTokenSecondPass"
  by code_simp

lemma em_token_third:
  "highlightMatches emTokenSecondPass (reconstructMarkdownText emTokenSecondPass) = emTokenSecondPass"
  by code_simp

lemma em_token_differ: "emTokenFirstPass \<noteq> emTokenSecondPass"
  by (simp add: emTokenFirstPass_def emTokenSecondPass_def)

lemma not_wrapper_hint: "\<not> (\<lambda>t c. isWrapper c) ''SPAN'' [hintClass]"
  by (simp add: isWrapper_def hintClass_def)

lemma countElems_cleared:
  "countElems P (children (setChildren n (removeHintNodes (children n)))) \<le> countElems P (children n)"
  by (cases n) (simp_all add: countElems_removeHintNodes_le)

lemma countElems_cleared_hints:
  "countElems (\<lambda>t c. isHint c) (children (setChildren n (removeHintNodes (children n)))) = 0"
  by (cases n) (simp_all add: countElems_removeHintNodes_none)

section \<open>The claims about the text engine\<close>

text \<open>
  Claim C10. The two section extractors agree: the lines that
  \<^verbatim>\<open>extractLinesUnderHeading\<close> of NutritionCalculator returns are the line components
  of what \<^verbatim>\<open>extractLinesUnderHeading\<close> of FoodHighlightCore returns, for every content
  and heading.
\<close>

theorem extractors_agree:
  "map fst (FHC_extractLinesUnderHeading text h) = NC_extractLinesUnderHeading text h"
  by (simp add: FHC_extractLinesUnderHeading_def NC_extractLinesUnderHeading_def map_fst_fhc_loop)




text \<open>
  Claim C3. \<^verbatim>\<open>calculateNutritionTotals\<close> returns \<^verbatim>\<open>null\<close> exactly when the lines of
  the Food Log section give no linked entry and no inline entry. For a text without a
  level-2 heading whose trimmed title is the wanted one, case-insensitively, both
  extractors return the empty sequence, and for the heading \<open>Food Log\<close> the aggregator
  returns \<^verbatim>\<open>null\<close> without calling the error callback.
\<close>

theorem no_data_iff_no_entries:
  "(fst (calculateNutritionTotals g p) = None \<longleftrightarrow>
      parseFoodEntriesFromLines (NC_extractLinesUnderHeading (content p) ''Food Log'') = [] \<and>
      parseInlineNutrientEntriesFromLines (NC_extractLinesUnderHeading (content p) ''Food Log'') = []) \<and>
   (list_all (\<lambda>l. \<not> opensSection h l) (split_lines text) \<longrightarrow>
      NC_extractLinesUnderHeading text h = [] \<and> FHC_extractLinesUnderHeading text h = []) \<and>
   (list_all (\<lambda>l. \<not> opensSection ''Food Log'' l) (split_lines (content p)) \<longrightarrow>
      calculateNutritionTotals g p = (None, []))"
proof -
  have "list_all (\<lambda>l. \<not> opensSection ''Food Log'' l) (split_lines (content p)) \<Longrightarrow>
      calculateNutritionTotals g p = (None, [])"
    by (simp add: calculateNutritionTotals_def NC_extractLinesUnderHeading_def nc_loop_closed
        parseFoodEntriesFromLines_def parseInlineNutrientEntriesFromLines_def)
  then show ?thesis
    by (simp add: calculateNutritionTotals_None NC_extractLinesUnderHeading_def
        FHC_extractLinesUnderHeading_def nc_loop_closed fhc_loop_closed)
qed

text \<open>
  Witness for C3: a log whose only level-2 heading has another title, although a line
  under it carries a nutrient token.
\<close>

theorem no_data_iff_no_entries_witness:
  "list_all (\<lambda>l. \<not> opensSection ''Food Log'' l) (split_lines otherSectionLog) \<and>
   NC_extractLinesUnderHeading otherSectionLog ''Food Log'' = [] \<and>
   FHC_extractLinesUnderHeading otherSectionLog ''Food Log'' = [] \<and>
   calculateNutritionTotals sampleMultiplier
     \<lparr>content = otherSectionLog, getNutritionData = noLookup, goals = None\<rparr> = (None, [])"
proof -
  have h: "list_all (\<lambda>l. \<not> opensSection ''Food Log'' l) (split_lines otherSectionLog)"
    by code_simp
  show ?thesis
    using h no_data_iff_no_entries [of sampleMultiplier
        "\<lparr>content = otherSectionLog, getNutritionData = noLookup, goals = None\<rparr>"
        "''Food Log''" otherSectionLog]
    by simp
qed

text \<open>
  Claim C1, as stated, fails. The log has one inline entry, \<open>Breakfast 300kcal\<close>, which
  passes the workout filter, so the filtered subset is not empty and its calorie total
  is 300. The claim asks for \<^verbatim>\<open>workoutTotals.calories = 300\<close> and for 300 to be taken
  off \<^verbatim>\<open>inlineTotals\<close>; the result has no workout calories and inline calories 300.
\<close>

theorem workout_totals_not_subtracted:
  "(case fst (calculateNutritionTotals sampleMultiplier
       \<lparr>content = breakfastLog, getNutritionData = noLookup, goals = None\<rparr>) of
      None \<Rightarrow> False
    | Some r \<Rightarrow>
        calculateInlineTotals (filterValidWorkoutEntries
          (parseInlineNutrientEntriesFromLines
             (NC_extractLinesUnderHeading breakfastLog ''Food Log''))) Calories = Some 300 \<and>
        workoutTotals r Calories = None \<and>
        inlineTotals r Calories = Some 300)"
proof (cases "fst (calculateNutritionTotals sampleMultiplier
       \<lparr>content = breakfastLog, getNutritionData = noLookup, goals = None\<rparr>)")
  case None
  then show ?thesis
    using breakfast_has_entries by (simp add: calculateNutritionTotals_None)
next
  case (Some r)
  then show ?thesis
    using calculateNutritionTotals_Some(1,2) [OF Some] breakfast_inline_totals breakfast_workout_totals
    by simp
qed

text \<open>
  Claim C1, amended. The list of workout entries of \<^verbatim>\<open>calculateNutritionTotals\<close> is
  always empty, so the filter and the subtraction never run on the inline entries:
  whenever a result is returned, its \<^verbatim>\<open>workoutTotals\<close> is the empty mapping and its
  \<^verbatim>\<open>inlineTotals\<close> is the key-wise sum of all inline entries of the section, with
  nothing subtracted.
\<close>

theorem workout_totals_always_empty:
  "fst (calculateNutritionTotals g p) = Some r \<Longrightarrow>
   workoutTotals r = Map.empty \<and>
   inlineTotals r = calculateInlineTotals
     (parseInlineNutrientEntriesFromLines (NC_extractLinesUnderHeading (content p) ''Food Log''))"
  using calculateNutritionTotals_Some(1,2) by blast

text \<open>Witness for C1: the breakfast log gives a result with inline calories 300.\<close>

theorem workout_totals_always_empty_witness:
  "\<exists>r. fst (calculateNutritionTotals sampleMultiplier
       \<lparr>content = breakfastLog, getNutritionData = noLookup, goals = None\<rparr>) = Some r \<and>
     workoutTotals r = Map.empty \<and> inlineTotals r Calories = Some 300"
proof -
  have "fst (calculateNutritionTotals sampleMultiplier
       \<lparr>content = breakfastLog, getNutritionData = noLookup, goals = None\<rparr>) \<noteq> None"
    using breakfast_has_entries by (simp add: calculateNutritionTotals_None)
  then obtain r where r: "fst (calculateNutritionTotals sampleMultiplier
       \<lparr>content = breakfastLog, getNutritionData = noLookup, goals = None\<rparr>) = Some r"
    by blast
  from workout_totals_always_empty [OF r] r breakfast_inline_totals show ?thesis by simp
qed

text \<open>
  Claim C6, the code at the failing input. The line \<open>[[x]] 5kcal\<close> begins with two
  opening brackets. The pattern is not anchored: the scan fails at index 0, where the
  lookahead sees the brackets, and succeeds at index 1 with the leading text \<open>[x]]\<close>.
  The line gives one inline entry with 5 calories.
\<close>

theorem inline_entry_from_bracket_line:
  "(case parseInlineNutrientEntriesFromLines [''[[x]] 5kcal''] of
      [entry] \<Rightarrow> entry Calories = Some 5
    | _ \<Rightarrow> False) \<and>
   scanFirst matchInlineAt 0 ''[[x]] 5kcal'' = Some (1, ''[x]]'', ''5kcal'')"
  by code_simp

text \<open>
  Claim C5, the code at the failing input. In the line \<open>[[a]] 1g\<close>, of length 8, the
  numeric value starts at offset 6 and the unit token ends at offset 8. The amount range
  is from 6 to 9: it ends one character behind the unit token.
\<close>

theorem amount_range_one_past_unit:
  "length ''[[a]] 1g'' = 8 \<and>
   extractFoodHighlightRanges ''[[a]] 1g'' 0 = [\<lparr>hr_start = 6, hr_end = 9, hr_type = Amount\<rparr>]"
  by code_simp

text \<open>
  Claim C7, as stated, fails for a lookup that fails by returning \<^verbatim>\<open>null\<close>: the entry is
  skipped and the error callback is not called at all.
\<close>

theorem null_lookup_not_reported:
  "calculateTotals sampleMultiplier [\<lparr>filename = ''apple'', amount = 100, unit = ''g''\<rparr>] noLookup
     = (Map.empty, ([] :: (string \<times> string) list))"
  by (simp add: calculateTotals_def totalsStep_def noLookup_def)

text \<open>
  Claim C7, amended. The error callback is called exactly once for every entry whose
  lookup throws, with the file name of the entry and the thrown value, in the order of
  the entries, and for no other entry; an entry whose lookup returns \<^verbatim>\<open>null\<close> is skipped
  without a call. The totals are those of the entries whose lookup returns nutrition
  facts, each scaled by its unit multiplier and accumulated: no failure ends the loop.
\<close>

theorem thrown_lookup_reported_once:
  "snd (calculateTotals g entries lk) = concat (map (lookupErrors lk) entries) \<and>
   fst (calculateTotals g entries lk) = fst (calculateTotals g (filter (lookupSucceeds lk) entries) lk) \<and>
   fst (calculateTotals g (filter (lookupSucceeds lk) entries) lk) =
     fold (\<lambda>e t. case lk (filename e) of
                   Inr (Some n) \<Rightarrow> addNutrients t n (g (amount e) (unit e) (n Serving_size))
                 | _ \<Rightarrow> t) (filter (lookupSucceeds lk) entries) Map.empty"
  unfolding calculateTotals_def
  using fold_totalsStep_calls [of g lk entries Map.empty "[]"]
    fold_totalsStep_filter [of g lk entries Map.empty "[]" "[]"]
    fold_totalsStep_success [of lk "filter (lookupSucceeds lk) entries" g Map.empty "[]"]
  by (simp add: list_all_iff)

text \<open>
  Witness for C7: five entries, of which two throw, one is unknown and two resolve. The
  callback is called for the two that throw, and the two servings of apple are totalled.
\<close>

theorem thrown_lookup_reported_once_witness:
  "snd (calculateTotals sampleMultiplier sampleEntries sampleLookup)
     = [(''broken'', ''cache down''), (''broken too'', ''cache still down'')] \<and>
   fst (calculateTotals sampleMultiplier sampleEntries sampleLookup) Calories = Some 200"
proof -
  have a: "concat (map (lookupErrors sampleLookup) sampleEntries)
      = [(''broken'', ''cache down''), (''broken too'', ''cache still down'')]"
    by code_simp
  have b: "fold (\<lambda>e t. case sampleLookup (filename e) of
                   Inr (Some n) \<Rightarrow>
                     addNutrients t n (sampleMultiplier (amount e) (unit e) (n Serving_size))
                 | _ \<Rightarrow> t) (filter (lookupSucceeds sampleLookup) sampleEntries) Map.empty Calories
      = Some 200"
    by code_simp
  show ?thesis
    using thrown_lookup_reported_once [of sampleMultiplier sampleEntries sampleLookup] a b
    by simp
qed




section \<open>The claims about the presentation tree\<close>

text \<open>
  Claim C2 fails on the code. The paragraph holds the heading line and a linked entry.
  The pass reconstructs its text, finds the heading line, and then evaluates
  \<^verbatim>\<open>settings.showCalorieHints\<close>; the name \<^verbatim>\<open>settings\<close> is bound nowhere, so a
  \<^verbatim>\<open>ReferenceError\<close> is thrown. \<^verbatim>\<open>process\<close> has no handler, and the error leaves it.
\<close>

theorem process_throws_reference_error:
  "reconstructMarkdownText appleParagraph = ''## Food Log'' @ [NL] @ ''[[apple]] 150g'' \<and>
   containsRelevantTags (reconstructMarkdownText appleParagraph) \<and>
   process sampleProcessor appleParagraph = Inl (ReferenceError ''settings'')"
  using apple_paragraph_text apple_paragraph_throws by blast

text \<open>
  The same for every processor and every element: \<^verbatim>\<open>process\<close> either returns with the
  element as it was, or throws the \<^verbatim>\<open>ReferenceError\<close>; for a container it throws exactly
  when the text of the container is not empty and holds the heading line. The section
  element with two paragraphs throws at its second paragraph, and the paragraph without
  the heading line is returned.
\<close>

theorem process_returns_unchanged_or_throws:
  "(process this el = Inr el \<or> process this el = Inl (ReferenceError ''settings'')) \<and>
   (isContainer el \<and> reconstructMarkdownText el \<noteq> [] \<and>
      containsRelevantTags (reconstructMarkdownText el) \<longrightarrow>
    process this el = Inl (ReferenceError ''settings'')) \<and>
   process sampleProcessor previewSection = Inl (ReferenceError ''settings'') \<and>
   process sampleProcessor plainParagraph = Inr plainParagraph"
  using process_cases [of this el] preview_section_throws plain_paragraph_returns
  by (simp add: process_def processContainer_cases)

text \<open>
  Claim C9 fails on the code. The paragraph is the rendering of the line
  \<^verbatim>\<open>[[a]] 5g*7fat*\<close> under the heading line; its text is \<^verbatim>\<open>[[a]] 5g7fat\<close>. The amount
  range ends one character behind the unit (\<^verbatim>\<open>amountEnd\<close> adds 1 to the two lengths),
  so it is \<open>5g7\<close> and overlaps the nutrition range \<open>7fat\<close>, which lies in the
  emphasised element. \<^verbatim>\<open>highlightMatches\<close> wraps \<open>7fat\<close> inside the emphasis and then
  moves its \<open>7\<close> into the amount wrapper. Applied again to the result, whose text is the
  same, it unwraps both, finds the same two ranges over the text nodes \<open>5g7\<close> and
  \<open>fat\<close>, and builds the nutrition wrapper at the first of them, outside the emphasis,
  which it leaves empty. The tree after two applications is not the tree after one.
\<close>

theorem second_pass_differs:
  "extractMultilineHighlightRanges (reconstructMarkdownText emTokenParagraph) 0 =
     [\<lparr>hr_start = 18, hr_end = 21, hr_type = Amount\<rparr>,
      \<lparr>hr_start = 20, hr_end = 24, hr_type = Nutrition\<rparr>] \<and>
   reconstructMarkdownText emTokenFirstPass = reconstructMarkdownText emTokenParagraph \<and>
   highlightMatches emTokenParagraph (reconstructMarkdownText emTokenParagraph) = emTokenFirstPass \<and>
   highlightMatches emTokenFirstPass (reconstructMarkdownText emTokenFirstPass) = emTokenSecondPass \<and>
   emTokenFirstPass \<noteq> emTokenSecondPass"
  using em_token_ranges em_token_text em_token_first em_token_second em_token_differ by blast

text \<open>
  A second input on which the second application differs, without the overlap of two
  ranges: the range of the token \<open>5kcal\<close> covers the text \<open>5\<close>, an element of class
  \<open>tag\<close> with the text \<open>kc\<close>, and the text \<open>al\<close>. The first application puts \<open>5al\<close>
  into one wrapper in front of the tag element, so the text read back is \<open>x 5alkc\<close>; the
  second unwraps the wrapper, finds no token and leaves plain text.
\<close>

theorem second_pass_differs_at_tag:
  "highlightMatches tagTokenParagraph (reconstructMarkdownText tagTokenParagraph) = tagTokenFirstPass \<and>
   highlightMatches tagTokenFirstPass (reconstructMarkdownText tagTokenFirstPass) = tagTokenSecondPass \<and>
   tagTokenFirstPass \<noteq> tagTokenSecondPass"
  using tag_token_first tag_token_second tag_token_differ by blast

text \<open>
  What the clearing steps do give. \<^verbatim>\<open>highlightMatches\<close> first replaces every wrapper
  element of the two highlight kinds by a text node, and the hint nodes are removed
  before hints are inserted. So wrappers and hints do not pile up: after
  \<^verbatim>\<open>highlightMatches\<close> the container holds at most one wrapper element for each
  highlight range of the text, and after the removal and the insertion at most one hint
  node for each hint position, whatever the container held before. The two clearing
  steps are idempotent and leave no element of their kind.
\<close>

theorem wrappers_and_hints_do_not_accumulate:
  "countElems (\<lambda>t c. isWrapper c) (children (highlightMatches container reconstructedText))
     \<le> length (extractMultilineHighlightRanges reconstructedText 0) \<and>
   countElems (\<lambda>t c. isHint c)
     (children (fold insertHint hints
        (setChildren highlighted (removeHintNodes (children highlighted)))))
     \<le> length hints \<and>
   unwrapNodes (unwrapNodes cs) = unwrapNodes cs \<and>
   countElems (\<lambda>t c. isWrapper c) (unwrapNodes cs) = 0 \<and>
   removeHintNodes (removeHintNodes cs) = removeHintNodes cs \<and>
   countElems (\<lambda>t c. isHint c) (removeHintNodes cs) = 0"
proof -
  define cleared where "cleared = setChildren highlighted (removeHintNodes (children highlighted))"
  define result where "result = fold insertHint hints cleared"
  have root: "setChildren result [] = setChildren cleared []"
    unfolding result_def by (rule root_fold_insertHint)
  have "countElems (\<lambda>t c. isHint c) [result]
      \<le> countElems (\<lambda>t c. isHint c) [cleared] + length hints"
    unfolding result_def by (rule countElems_fold_insertHint)
  with root have "countElems (\<lambda>t c. isHint c) (children result)
      \<le> countElems (\<lambda>t c. isHint c) (children cleared) + length hints"
    by (rule countElems_children_le)
  then have h: "countElems (\<lambda>t c. isHint c) (children result) \<le> length hints"
    unfolding cleared_def by (simp add: countElems_cleared_hints)
  show ?thesis
    using h wrappers_after_highlightMatches [of container reconstructedText]
    unfolding result_def cleared_def
    by (simp add: unwrapNodes_idem removeHintNodes_idem countElems_unwrapNodes_none
        countElems_removeHintNodes_none)
qed

text \<open>
  An instance: the statements behind the read of \<^verbatim>\<open>settings\<close>, with hints shown, turn
  the sample paragraph into one with a wrapper and a hint, and turn that one into
  itself.
\<close>

theorem sample_paragraph_passes:
  "hintPositionsOf sampleProcessor \<lparr>showCalorieHints = True\<rparr> (reconstructMarkdownText appleParagraph)
     = Inr [\<lparr>position = 26, annotation_text = ''150kcal''\<rparr>] \<and>
   fold insertHint [\<lparr>position = 26, annotation_text = ''150kcal''\<rparr>]
     (let highlighted = highlightMatches appleParagraph (reconstructMarkdownText appleParagraph)
      in setChildren highlighted (removeHintNodes (children highlighted)))
   = appleParagraphDone \<and>
   reconstructMarkdownText appleParagraphDone = reconstructMarkdownText appleParagraph \<and>
   fold insertHint [\<lparr>position = 26, annotation_text = ''150kcal''\<rparr>]
     (let highlighted = highlightMatches appleParagraphDone (reconstructMarkdownText appleParagraphDone)
      in setChildren highlighted (removeHintNodes (children highlighted)))
   = appleParagraphDone"
  using apple_hints apple_highlighted apple_highlighted_again by blast

end
